theory Spec2Isabelle
  imports Main
begin

section \<open>JavaScript values\<close>

subsection \<open>Strings\<close>

text \<open>
  \<^verbatim>\<open>String.prototype.includes\<close>, \<^verbatim>\<open>toLowerCase\<close>, \<^verbatim>\<open>replace\<close> with a string pattern
  (which replaces the first occurrence only) and \<^verbatim>\<open>Array.prototype.join\<close>.
  Strings are lists of 8-bit characters, so \<open>toLowerCase\<close> folds the letters A to Z only.
\<close>

fun str_includes :: "string \<Rightarrow> string \<Rightarrow> bool" where
  "str_includes [] pat = (pat = [])"
| "str_includes (c # cs) pat = (take (length pat) (c # cs) = pat \<or> str_includes cs pat)"

definition lowerChar :: "char \<Rightarrow> char" where
  "lowerChar c =
     (let n = (of_char c :: nat) in if 65 \<le> n \<and> n \<le> 90 then char_of (n + 32) else c)"

definition toLowerCase :: "string \<Rightarrow> string" where
  "toLowerCase s = map lowerChar s"

fun replace :: "string \<Rightarrow> string \<Rightarrow> string \<Rightarrow> string" where
  "replace [] pat rep = (if pat = [] then rep else [])"
| "replace (c # cs) pat rep =
     (if take (length pat) (c # cs) = pat then rep @ drop (length pat) (c # cs)
      else c # replace cs pat rep)"

fun join :: "string \<Rightarrow> string list \<Rightarrow> string" where
  "join sep [] = []"
| "join sep [x] = x"
| "join sep (x # y # ys) = x @ sep @ join sep (y # ys)"

text \<open>A value that may be \<^verbatim>\<open>undefined\<close> or \<^verbatim>\<open>null\<close> is an option; a string is truthy when
  it is present and not empty.\<close>

definition truthy :: "string option \<Rightarrow> bool" where
  "truthy v = (case v of None \<Rightarrow> False | Some s \<Rightarrow> s \<noteq> [])"

text \<open>A template literal prints a missing value as the word undefined.\<close>

definition template :: "string option \<Rightarrow> string" where
  "template v = (case v of None \<Rightarrow> ''undefined'' | Some s \<Rightarrow> s)"

subsection \<open>Error objects\<close>

text \<open>
  The handlers of the repository read these parts of a caught error: \<^verbatim>\<open>message\<close>, \<^verbatim>\<open>code\<close>
  (set by the identity store), \<^verbatim>\<open>response.status\<close> and \<^verbatim>\<open>response.data\<close> (set by the bank
  aggregation client) and \<^verbatim>\<open>response.body\<close> (read by the payment-rail handler). What is
  thrown is an Error object of a client library or of the runtime, whose \<^verbatim>\<open>message\<close> is a
  string. The payment-rail client (dwolla-v2) rejects with an Error whose message is the
  text of the response body; it also sets \<^verbatim>\<open>status\<close>, \<^verbatim>\<open>headers\<close> and \<^verbatim>\<open>body\<close> on the error,
  which no handler reads, and it sets no \<^verbatim>\<open>response\<close>.
\<close>

record fieldError =
  path :: "string option"
  fe_message :: "string option"

record errorBody =
  embedded_errors :: "fieldError list option"
  body_message :: "string option"
  body_json :: string

text \<open>
  The body of an error response is whatever JSON the other side sent, so a field of it that
  the code does not check can hold any JSON value. \<^verbatim>\<open>includes\<close> is a method of strings and of
  arrays only; called on another value it throws a TypeError.
\<close>

datatype jsValue =
    JsString string
  | JsNumber int
  | JsBoolean bool
  | JsNull
  | JsArray "jsValue list"
  | JsObject

definition jsTruthy :: "jsValue \<Rightarrow> bool" where
  "jsTruthy v =
     (case v of
        JsString s \<Rightarrow> s \<noteq> []
      | JsNumber n \<Rightarrow> n \<noteq> 0
      | JsBoolean b \<Rightarrow> b
      | JsNull \<Rightarrow> False
      | JsArray xs \<Rightarrow> True
      | JsObject \<Rightarrow> True)"

definition includesOf :: "jsValue \<Rightarrow> (string \<Rightarrow> bool) option" where
  "includesOf v =
     (case v of
        JsString s \<Rightarrow> Some (str_includes s)
      | JsArray xs \<Rightarrow> Some (\<lambda>pat. JsString pat \<in> set xs)
      | _ \<Rightarrow> None)"

text \<open>\<open>error_code\<close> is only compared with \<^verbatim>\<open>===\<close>, which a value that is not a string fails like
  a missing one.\<close>

record plaidErrorData =
  error_code :: "string option"
  error_message :: "jsValue option"

record errorResponse =
  status :: "int option"
  data :: "plaidErrorData option"
  body :: "errorBody option"

record jsError =
  message :: "string option"
  code :: "int option"
  response :: "errorResponse option"

definition Error :: "string \<Rightarrow> jsError" where
  "Error msg = \<lparr>message = Some msg, code = None, response = None\<rparr>"

section \<open>Collaborators and effects\<close>

text \<open>The profile fields of the sign-up form (\<^verbatim>\<open>SignUpParams\<close> without the password); the
  payment-rail customer adds the \<^verbatim>\<open>type\<close>.\<close>

record userData =
  firstName :: string
  lastName :: string
  address1 :: string
  city :: string
  state :: string
  postalCode :: string
  dateOfBirth :: string
  ssn :: string
  email :: string

record newDwollaCustomerParams = userData +
  customerType :: string

datatype dwollaPayload =
    NoPayload
  | FundingSourcePayload string string
  | CustomerPayload newDwollaCustomerParams
  | TransferPayload string string string

text \<open>The parts of a payment-rail response that the code reads: the \<^verbatim>\<open>location\<close> header and
  \<^verbatim>\<open>body._links\<close> (the outer option is a missing body).\<close>

record dwollaResponse =
  location :: "string option"
  body_links :: "string option option"

text \<open>Documents and answers of the identity store. The \<^verbatim>\<open>$id\<close> of a user document, of a
  bank document, of a session and of an account is \<open>user_id\<close>, \<open>bank_id\<close>, \<open>session_id\<close> and
  \<open>ua_id\<close>.\<close>

record userProfile = userData +
  userId :: string
  dwollaCustomerId :: string
  dwollaCustomerUrl :: string

record userDoc = userProfile +
  user_id :: string

record userAccount =
  ua_id :: string
  ua_email :: string

record session =
  session_id :: string
  session_userId :: string
  secret :: string

record bankData =
  bank_userId :: string
  bankId :: string
  accountId :: string
  accessToken :: string
  fundingSourceUrl :: string
  shareableId :: string

record bank = bankData +
  bank_id :: string

text \<open>
  Answers of the bank aggregation client. Amounts and balances are JavaScript numbers; their
  type \<open>'n\<close> is left open, and the only arithmetic done on them is the addition of
  balances in \<open>getAccounts\<close>.
\<close>

record exchangeResponse =
  access_token :: string
  item_id :: string

record 'n plaidAccount =
  account_id :: string
  balances_available :: 'n
  balances_current :: 'n
  account_name :: string
  official_name :: "string option"
  mask :: string
  account_type :: string
  subtype :: string

record 'n accountsGetResponse =
  accounts :: "'n plaidAccount list"
  item_institution_id :: string

record institution =
  institution_id :: string
  institution_name :: string

record syncRequest =
  req_access_token :: string
  req_cursor :: string

text \<open>Every request sent to a collaborator, every cookie operation and every console line is an
  entry of the trace of an invocation, in the order of issue.\<close>

datatype call =
    DwollaPost string dwollaPayload
  | CreateAdminClient
  | AccountCreate string string string
  | CreateEmailPasswordSession string string
  | DeleteSession string
  | DeleteIdentity string
  | AccountGet
  | ListUserDocuments string
  | CreateUserDocument userProfile
  | CreateBankDocument bankData
  | CookiesSet string string
  | CookiesDelete string
  | ItemPublicTokenExchange string
  | AccountsGet string
  | ProcessorTokenCreate string string string
  | InstitutionsGetById string
  | TransactionsSync syncRequest
  | ListBankDocuments string string
  | GetTransactionsByBankId string
  | RevalidatePath string
  | ConsoleError string "jsError option"
  | ConsoleLog string

text \<open>An action yields its trace and either the error it throws or the value it returns.\<close>

type_synonym 'a io = "call list \<times> (jsError + 'a)"

definition return :: "'a \<Rightarrow> 'a io" where
  "return x = ([], Inr x)"

definition throw :: "jsError \<Rightarrow> 'a io" where
  "throw e = ([], Inl e)"

definition emit :: "call \<Rightarrow> unit io" where
  "emit c = ([c], Inr ())"

definition await :: "call \<Rightarrow> jsError + 'a \<Rightarrow> 'a io" where
  "await c r = ([c], r)"

definition bind :: "'a io \<Rightarrow> ('a \<Rightarrow> 'b io) \<Rightarrow> 'b io" where
  "bind m f =
     (case m of
        (t, Inl e) \<Rightarrow> (t, Inl e)
      | (t, Inr x) \<Rightarrow> (case f x of (t', r) \<Rightarrow> (t @ t', r)))"

definition try_catch :: "'a io \<Rightarrow> (jsError \<Rightarrow> 'a io) \<Rightarrow> 'a io" where
  "try_catch m h =
     (case m of
        (t, Inl e) \<Rightarrow> (case h e of (t', r) \<Rightarrow> (t @ t', r))
      | (t, Inr x) \<Rightarrow> (t, Inr x))"

section \<open>Payment-rail actions (dwolla.actions.ts)\<close>

record dwolla =
  DWOLLA_KEY :: "string option"
  DWOLLA_SECRET :: "string option"
  DWOLLA_ENV :: "string option"
  post :: "string \<Rightarrow> dwollaPayload \<Rightarrow> jsError + dwollaResponse"
  JSON_parse :: "string \<Rightarrow> errorBody option"

record createFundingSourceOptions =
  customerId :: string
  fundingSourceName :: string
  plaidToken :: string
  links :: "string option"

record transferParams =
  sourceFundingSourceUrl :: string
  destinationFundingSourceUrl :: string
  amount :: string

definition createFundingSource :: "dwolla \<Rightarrow> createFundingSourceOptions \<Rightarrow> string option io" where
  "createFundingSource d options =
     try_catch
       (let url = ''customers/'' @ customerId options @ ''/funding-sources'';
            payload = FundingSourcePayload (fundingSourceName options) (plaidToken options)
        in bind (await (DwollaPost url payload) (post d url payload)) (\<lambda>res.
           return (location res)))
       (\<lambda>err. bind (emit (ConsoleError ''Creating a Funding Source Failed: '' (Some err))) (\<lambda>_.
           return None))"

definition typeError :: "string \<Rightarrow> jsError" where
  "typeError what = Error (''Cannot read properties of undefined (reading '' @ what @ '')'')"

definition createOnDemandAuthorization :: "dwolla \<Rightarrow> string option io" where
  "createOnDemandAuthorization d =
     try_catch
       (bind (await (DwollaPost ''on-demand-authorizations'' NoPayload)
                (post d ''on-demand-authorizations'' NoPayload)) (\<lambda>onDemandAuthorization.
        case body_links onDemandAuthorization of
          None \<Rightarrow> throw (typeError ''_links'')
        | Some authLink \<Rightarrow> return authLink))
       (\<lambda>err. bind (emit (ConsoleError ''Creating an On Demand Authorization Failed: '' (Some err))) (\<lambda>_.
           return None))"

definition validationErrors :: "fieldError list \<Rightarrow> string" where
  "validationErrors errors =
     join '', '' (map (\<lambda>e.
       let field = (case path e of
                      None \<Rightarrow> ''field''
                    | Some p \<Rightarrow> (let r = replace p ''/'' [] in if r = [] then ''field'' else r))
       in field @ '': '' @ template (fe_message e)) errors)"

text \<open>
  \<open>createDwollaCustomer_try\<close> and \<open>createDwollaCustomer_catch\<close> are the two blocks of
  \<open>createDwollaCustomer\<close>. In the handler the block that parses \<^verbatim>\<open>err.message\<close> as JSON sits
  in a \<^verbatim>\<open>try\<close> whose \<^verbatim>\<open>catch (parseError)\<close> is empty, so whatever the block throws, the
  validation error it builds included, is dropped there.
\<close>

definition createDwollaCustomer_try :: "dwolla \<Rightarrow> newDwollaCustomerParams \<Rightarrow> string io" where
  "createDwollaCustomer_try d newCustomer =
     (if \<not> truthy (DWOLLA_KEY d) \<or> \<not> truthy (DWOLLA_SECRET d) then
        throw (Error ''Dwolla credentials are not configured. Please check your environment variables.'')
      else if \<not> truthy (DWOLLA_ENV d) then
        throw (Error ''Dwolla environment is not set. Please set DWOLLA_ENV to 'sandbox' or 'production'.'')
      else
        bind (emit (ConsoleLog ''Creating Dwolla customer with data:'')) (\<lambda>_.
        bind (await (DwollaPost ''customers'' (CustomerPayload newCustomer))
                (post d ''customers'' (CustomerPayload newCustomer))) (\<lambda>response.
        case location response of
          None \<Rightarrow> throw (Error ''Dwolla customer created but no location URL returned.'')
        | Some loc \<Rightarrow>
            if loc = [] then throw (Error ''Dwolla customer created but no location URL returned.'')
            else bind (emit (ConsoleLog ''Dwolla customer created successfully:'')) (\<lambda>_.
                 return loc))))"

definition createDwollaCustomer_catch :: "dwolla \<Rightarrow> jsError \<Rightarrow> string io" where
  "createDwollaCustomer_catch d err =
     bind (emit (ConsoleError ''Creating a Dwolla Customer Failed - Full Error:'' (Some err))) (\<lambda>_.
     case (case response err of None \<Rightarrow> None | Some r \<Rightarrow> body r) of
       Some errorBody \<Rightarrow>
         (case embedded_errors errorBody of
            Some errors \<Rightarrow> throw (Error (''Validation error: '' @ validationErrors errors))
          | None \<Rightarrow>
              (let errorMessage = (if truthy (body_message errorBody)
                                   then template (body_message errorBody)
                                   else body_json errorBody)
               in throw (Error (''Dwolla customer creation failed: '' @ errorMessage))))
     | None \<Rightarrow>
         if truthy (message err) then
           bind (try_catch
                   (case JSON_parse d (template (message err)) of
                      None \<Rightarrow> throw (Error ''Unexpected token'')
                    | Some parsedError \<Rightarrow>
                        (case embedded_errors parsedError of
                           Some errors \<Rightarrow>
                             throw (Error (''Validation error: '' @ validationErrors errors))
                         | None \<Rightarrow> return ()))
                   (\<lambda>parseError. return ())) (\<lambda>_.
           throw (Error (''Dwolla customer creation failed: '' @ template (message err))))
         else
           throw (Error ''Dwolla customer creation failed. Please check your Dwolla credentials and try again.''))"

definition createDwollaCustomer :: "dwolla \<Rightarrow> newDwollaCustomerParams \<Rightarrow> string io" where
  "createDwollaCustomer d newCustomer =
     try_catch (createDwollaCustomer_try d newCustomer) (createDwollaCustomer_catch d)"

definition createTransfer :: "dwolla \<Rightarrow> transferParams \<Rightarrow> string option io" where
  "createTransfer d params =
     try_catch
       (let requestBody = TransferPayload (sourceFundingSourceUrl params)
                            (destinationFundingSourceUrl params) (amount params)
        in bind (await (DwollaPost ''transfers'' requestBody) (post d ''transfers'' requestBody)) (\<lambda>res.
           return (location res)))
       (\<lambda>err. bind (emit (ConsoleError ''Transfer fund failed: '' (Some err))) (\<lambda>_.
           return None))"

section \<open>The sign-in and sign-up form (AuthForm, onSubmit)\<close>

text \<open>
  The handler of \<open>onSubmit\<close> turns a caught error into the message shown on the form by a chain
  of tests on the lower-cased message. \<open>onSubmit_branch\<close> is the test of the chain that fires,
  \<open>onSubmit_errorMessage\<close> the message set in that branch.
\<close>

datatype messageBranch =
    NoMessage
  | ProfileDataMissing
  | AccountAlreadyExists
  | UserNotFound
  | InvalidCredentials
  | ValidationError
  | OriginalMessage

definition onSubmit_branch :: "jsError \<Rightarrow> messageBranch" where
  "onSubmit_branch error =
     (if \<not> truthy (message error) then NoMessage
      else
        let msg = toLowerCase (template (message error)) in
        if str_includes msg ''profile_data_missing'' \<or> str_includes msg ''profile data is missing''
           \<or> str_includes msg ''profile data'' then ProfileDataMissing
        else if str_includes msg ''already exists'' \<or> str_includes msg ''already registered'' then
          AccountAlreadyExists
        else if str_includes msg ''user not found'' \<or> str_includes msg ''no account found'' then
          UserNotFound
        else if (str_includes msg ''invalid credentials'' \<or>
                 str_includes msg ''invalid password'' \<or>
                 str_includes msg ''wrong password'' \<or>
                 (code error = Some 401 \<and> str_includes msg ''unauthorized''))
                \<and> \<not> str_includes msg ''profile'' then InvalidCredentials
        else if str_includes msg ''validation error'' \<or> str_includes msg ''dwolla'' then
          ValidationError
        else OriginalMessage)"

definition onSubmit_errorMessage :: "jsError \<Rightarrow> string" where
  "onSubmit_errorMessage error =
     (case onSubmit_branch error of
        NoMessage \<Rightarrow> ''An error occurred. Please try again.''
      | ProfileDataMissing \<Rightarrow>
          ''Your account exists but profile data is missing. This may have occurred during sign-up. Please try signing up again with the same email, or contact support if the issue persists.''
      | AccountAlreadyExists \<Rightarrow>
          ''An account with this email already exists. Please sign in instead.''
      | UserNotFound \<Rightarrow> ''No account found with this email. Please sign up first.''
      | InvalidCredentials \<Rightarrow> ''Invalid email or password. Please try again.''
      | ValidationError \<Rightarrow>
          (if str_includes (toLowerCase (template (message error))) ''state'' then
             ''State must be a valid 2-letter US state code (e.g., CA, NY, TX). Please use a US state abbreviation.''
           else
             replace (replace (template (message error)) ''Dwolla customer creation failed: '' [])
               ''Validation error: '' [])
      | OriginalMessage \<Rightarrow> replace (template (message error)) ''PROFILE_DATA_MISSING: '' [])"

section \<open>User actions (user.actions.ts)\<close>

text \<open>
  The identity store as the actions use it. Each operation answers a request with an error or
  a value, and answers equal requests alike during one invocation. Where the code tests a
  result for being falsy, the value is an option. \<open>listBankDocuments\<close> lists the bank
  documents whose field, the first argument, equals the second.

  \<open>extractCustomerIdFromUrl\<close> and \<open>encryptId\<close> are helpers of the repository whose text is
  not at hand; they are parameters here. \<^verbatim>\<open>parseStringify\<close>, another such helper, passes a
  value through JSON text and back. On the data of this model that is the identity, so it is
  left out, except that it throws on an undefined value, as in \<open>getBanks\<close>.
\<close>

record appwrite =
  createAdminClient :: "jsError + unit"
  account_create :: "string \<Rightarrow> string \<Rightarrow> string \<Rightarrow> jsError + userAccount option"
  createEmailPasswordSession :: "string \<Rightarrow> string \<Rightarrow> jsError + session"
  deleteSession :: "string \<Rightarrow> jsError + unit"
  deleteIdentity :: "string \<Rightarrow> jsError + unit"
  account_get :: "jsError + userAccount"
  listUserDocuments :: "string \<Rightarrow> jsError + userDoc list option"
  createUserDocument :: "userProfile \<Rightarrow> jsError + userDoc option"
  createBankDocument :: "bankData \<Rightarrow> jsError + bank"
  listBankDocuments :: "string \<Rightarrow> string \<Rightarrow> jsError + bank list option"
  extractCustomerIdFromUrl :: "string \<Rightarrow> string"
  encryptId :: "string \<Rightarrow> string"

definition getUserInfo :: "appwrite \<Rightarrow> string \<Rightarrow> userDoc option io" where
  "getUserInfo a uid =
     try_catch
       (bind (await CreateAdminClient (createAdminClient a)) (\<lambda>_.
        bind (await (ListUserDocuments uid) (listUserDocuments a uid)) (\<lambda>user.
        case user of
          None \<Rightarrow> bind (emit (ConsoleLog (''No user document found for userId: '' @ uid))) (\<lambda>_.
                  return None)
        | Some [] \<Rightarrow> bind (emit (ConsoleLog (''No user document found for userId: '' @ uid))) (\<lambda>_.
                     return None)
        | Some (doc # _) \<Rightarrow> return (Some doc))))
       (\<lambda>error. bind (emit (ConsoleError ''Error in getUserInfo:'' (Some error))) (\<lambda>_.
          return None))"

definition profileError :: jsError where
  "profileError = Error ''PROFILE_DATA_MISSING: Your account exists but profile data is missing. This may have occurred during sign-up. Please try signing up again or contact support.''"

definition isInvalidCredentials :: "jsError \<Rightarrow> bool" where
  "isInvalidCredentials error =
     (let errorMessage = (case message error of None \<Rightarrow> [] | Some m \<Rightarrow> toLowerCase m) in
      (str_includes errorMessage ''invalid credentials'' \<and> \<not> str_includes errorMessage ''profile'') \<or>
      (str_includes errorMessage ''invalid password'' \<and> \<not> str_includes errorMessage ''profile'') \<or>
      (str_includes errorMessage ''wrong password'' \<and> \<not> str_includes errorMessage ''profile'') \<or>
      (str_includes errorMessage ''user not found'' \<and> \<not> str_includes errorMessage ''profile'') \<or>
      (code error = Some 401 \<and> str_includes errorMessage ''unauthorized''
         \<and> \<not> str_includes errorMessage ''profile''))"

text \<open>The \<^verbatim>\<open>catch\<close> block of \<open>signIn\<close>: it always throws, either the caught error or the
  invalid-credentials error.\<close>

definition signIn_catch :: "jsError \<Rightarrow> userDoc io" where
  "signIn_catch error =
     bind (emit (ConsoleError ''Sign in error details:'' (Some error))) (\<lambda>_.
     if (case message error of None \<Rightarrow> False | Some m \<Rightarrow> str_includes m ''PROFILE_DATA_MISSING'') then
       throw error
     else if isInvalidCredentials error then
       throw (Error ''Invalid email or password. Please try again.'')
     else throw error)"

definition signIn :: "appwrite \<Rightarrow> string \<Rightarrow> string \<Rightarrow> userDoc io" where
  "signIn a mail password =
     try_catch
       (bind (await CreateAdminClient (createAdminClient a)) (\<lambda>_.
        bind (await (CreateEmailPasswordSession mail password)
                (createEmailPasswordSession a mail password)) (\<lambda>session.
        bind (emit (CookiesSet ''appwrite-session'' (secret session))) (\<lambda>_.
        bind (getUserInfo a (session_userId session)) (\<lambda>user.
        case user of
          None \<Rightarrow>
            bind (try_catch
                    (bind (await AccountGet (account_get a)) (\<lambda>accountInfo.
                     emit (ConsoleError (''User document missing for userId: '' @ session_userId session
                             @ '', email: '' @ ua_email accountInfo) None)))
                    (\<lambda>accountError. emit (ConsoleError ''Error getting account info:'' (Some accountError))))
              (\<lambda>_. throw profileError)
        | Some u \<Rightarrow> return u)))))
       signIn_catch"

text \<open>In \<open>signUp\<close> the clean-up after a failed step is written out twice, with the same text.\<close>

definition cleanupAccount :: "appwrite \<Rightarrow> string \<Rightarrow> unit io" where
  "cleanupAccount a uid =
     try_catch (await (DeleteIdentity uid) (deleteIdentity a uid))
       (\<lambda>cleanupError. emit (ConsoleError ''Failed to cleanup account:'' (Some cleanupError)))"

definition personal :: "userData \<Rightarrow> newDwollaCustomerParams" where
  "personal u =
     \<lparr>firstName = firstName u, lastName = lastName u, address1 = address1 u, city = city u,
      state = state u, postalCode = postalCode u, dateOfBirth = dateOfBirth u, ssn = ssn u,
      email = email u, customerType = ''personal''\<rparr>"

definition profileOf :: "userData \<Rightarrow> string \<Rightarrow> string \<Rightarrow> string \<Rightarrow> userProfile" where
  "profileOf u uid customerId' customerUrl =
     \<lparr>firstName = firstName u, lastName = lastName u, address1 = address1 u, city = city u,
      state = state u, postalCode = postalCode u, dateOfBirth = dateOfBirth u, ssn = ssn u,
      email = email u, userId = uid, dwollaCustomerId = customerId',
      dwollaCustomerUrl = customerUrl\<rparr>"

definition alreadyExistsError :: jsError where
  "alreadyExistsError = Error ''An account with this email already exists. Please sign in instead.''"

text \<open>The \<^verbatim>\<open>try\<close> block of \<open>signUp\<close>.\<close>

definition signUp_try :: "appwrite \<Rightarrow> dwolla \<Rightarrow> userData \<Rightarrow> string \<Rightarrow> userDoc io" where
  "signUp_try a d u password =
     bind (await CreateAdminClient (createAdminClient a)) (\<lambda>_.
     bind (await (AccountCreate (email u) password (firstName u @ '' '' @ lastName u))
             (account_create a (email u) password (firstName u @ '' '' @ lastName u))) (\<lambda>newUserAccount.
     case newUserAccount of
       None \<Rightarrow> throw (Error ''Error creating user account'')
     | Some account \<Rightarrow>
     bind (createDwollaCustomer d (personal u)) (\<lambda>dwollaCustomerUrl'.
     if dwollaCustomerUrl' = [] then
       bind (cleanupAccount a (ua_id account)) (\<lambda>_.
       throw (Error ''Error creating Dwolla customer. Please try again.''))
     else
     let dwollaCustomerId' = extractCustomerIdFromUrl a dwollaCustomerUrl';
         document = profileOf u (ua_id account) dwollaCustomerId' dwollaCustomerUrl' in
     bind (await (CreateUserDocument document) (createUserDocument a document)) (\<lambda>newUser.
     case newUser of
       None \<Rightarrow>
         bind (cleanupAccount a (ua_id account)) (\<lambda>_.
         throw (Error ''Error creating user profile. Please try again.''))
     | Some doc \<Rightarrow>
     bind (await (CreateEmailPasswordSession (email u) password)
             (createEmailPasswordSession a (email u) password)) (\<lambda>session.
     bind (emit (CookiesSet ''appwrite-session'' (secret session))) (\<lambda>_.
     return doc))))))"

text \<open>The recovery attempt inside the \<^verbatim>\<open>catch\<close> block of \<open>signUp\<close>. Its value is the
  document that \<open>signUp\<close> returns from there, or nothing when control falls out of the block.\<close>

definition signUp_recover :: "appwrite \<Rightarrow> dwolla \<Rightarrow> userData \<Rightarrow> string \<Rightarrow> userDoc option io" where
  "signUp_recover a d u password =
     bind (await CreateAdminClient (createAdminClient a)) (\<lambda>_.
     bind (try_catch
             (bind (await (CreateEmailPasswordSession (email u) password)
                      (createEmailPasswordSession a (email u) password)) (\<lambda>testSession.
              bind (await (DeleteSession (session_id testSession))
                      (deleteSession a (session_id testSession))) (\<lambda>_.
              return (session_userId testSession))))
             (\<lambda>sessionError. throw alreadyExistsError)) (\<lambda>existingUserId.
     if existingUserId = [] then return None
     else
     bind (getUserInfo a existingUserId) (\<lambda>existingUser.
     case existingUser of
       Some _ \<Rightarrow> throw alreadyExistsError
     | None \<Rightarrow>
     bind (emit (ConsoleLog ''Recovering: Creating missing database document for existing account'')) (\<lambda>_.
     bind (createDwollaCustomer d (personal u)) (\<lambda>dwollaCustomerUrl'.
     if dwollaCustomerUrl' = [] then
       throw (Error ''Error creating Dwolla customer. Please try again.'')
     else
     let dwollaCustomerId' = extractCustomerIdFromUrl a dwollaCustomerUrl';
         document = profileOf u existingUserId dwollaCustomerId' dwollaCustomerUrl' in
     bind (await (CreateUserDocument document) (createUserDocument a document)) (\<lambda>recoveredUser.
     case recoveredUser of
       None \<Rightarrow> return None
     | Some doc \<Rightarrow>
     bind (await (CreateEmailPasswordSession (email u) password)
             (createEmailPasswordSession a (email u) password)) (\<lambda>session.
     bind (emit (CookiesSet ''appwrite-session'' (secret session))) (\<lambda>_.
     return (Some doc)))))))))"

definition signUp :: "appwrite \<Rightarrow> dwolla \<Rightarrow> userData \<Rightarrow> string \<Rightarrow> userDoc io" where
  "signUp a d u password =
     try_catch (signUp_try a d u password)
       (\<lambda>error.
          bind (emit (ConsoleError ''Sign up error:'' (Some error))) (\<lambda>_.
          if (case message error of
                None \<Rightarrow> False
              | Some m \<Rightarrow> str_includes m ''already exists'' \<or> str_includes m ''already registered'')
             \<or> code error = Some 409 then
            bind (try_catch (signUp_recover a d u password)
                    (\<lambda>recoveryError.
                       case message recoveryError of
                         None \<Rightarrow> throw (typeError ''includes'')
                       | Some m \<Rightarrow>
                           if str_includes m ''already exists'' then throw recoveryError
                           else throw alreadyExistsError)) (\<lambda>returned.
            case returned of
              Some doc \<Rightarrow> return doc
            | None \<Rightarrow> throw alreadyExistsError)
          else throw error))"

record 'n plaid =
  itemPublicTokenExchange :: "string \<Rightarrow> jsError + exchangeResponse"
  accountsGet :: "string \<Rightarrow> jsError + 'n accountsGetResponse"
  processorTokenCreate :: "string \<Rightarrow> string \<Rightarrow> string \<Rightarrow> jsError + string"
  institutionsGetById :: "string \<Rightarrow> jsError + institution"

definition createBankAccount :: "appwrite \<Rightarrow> bankData \<Rightarrow> bank option io" where
  "createBankAccount a b =
     try_catch
       (bind (await CreateAdminClient (createAdminClient a)) (\<lambda>_.
        bind (await (CreateBankDocument b) (createBankDocument a b)) (\<lambda>bankAccount.
        return (Some bankAccount))))
       (\<lambda>error. bind (emit (ConsoleLog ''error'')) (\<lambda>_. return None))"

text \<open>\<open>addFundingSource\<close> is in dwolla.actions.ts; it is placed here, before its caller.\<close>

record addFundingSourceParams =
  fs_dwollaCustomerId :: string
  processorToken :: string
  bankName :: string

definition addFundingSource :: "dwolla \<Rightarrow> addFundingSourceParams \<Rightarrow> string option io" where
  "addFundingSource d params =
     try_catch
       (bind (createOnDemandAuthorization d) (\<lambda>dwollaAuthLinks.
        createFundingSource d
          \<lparr>customerId = fs_dwollaCustomerId params, fundingSourceName = bankName params,
           plaidToken = processorToken params, links = dwollaAuthLinks\<rparr>))
       (\<lambda>err. bind (emit (ConsoleError ''Transfer fund failed: '' (Some err))) (\<lambda>_.
          return None))"

text \<open>\<^verbatim>\<open>throw Error\<close> throws the constructor itself, a value without a message.\<close>

definition exchangePublicToken ::
  "appwrite \<Rightarrow> 'n plaid \<Rightarrow> dwolla \<Rightarrow> string \<Rightarrow> userDoc \<Rightarrow> string option io" where
  "exchangePublicToken a p d publicToken user =
     try_catch
       (bind (await (ItemPublicTokenExchange publicToken)
                (itemPublicTokenExchange p publicToken)) (\<lambda>response.
        let accessToken' = access_token response; itemId = item_id response in
        bind (await (AccountsGet accessToken') (accountsGet p accessToken')) (\<lambda>accountsResponse.
        case accounts accountsResponse of
          [] \<Rightarrow> throw (typeError ''account_id'')
        | accountData # _ \<Rightarrow>
        bind (await (ProcessorTokenCreate accessToken' (account_id accountData) ''dwolla'')
                (processorTokenCreate p accessToken' (account_id accountData) ''dwolla''))
          (\<lambda>processorToken'.
        bind (addFundingSource d
                \<lparr>fs_dwollaCustomerId = dwollaCustomerId user, processorToken = processorToken',
                 bankName = account_name accountData\<rparr>) (\<lambda>fundingSourceUrl'.
        case fundingSourceUrl' of
          None \<Rightarrow> throw \<lparr>message = None, code = None, response = None\<rparr>
        | Some url \<Rightarrow>
        if url = [] then throw \<lparr>message = None, code = None, response = None\<rparr>
        else
        bind (createBankAccount a
                \<lparr>bank_userId = user_id user, bankId = itemId, accountId = account_id accountData,
                 accessToken = accessToken', fundingSourceUrl = url,
                 shareableId = encryptId a (account_id accountData)\<rparr>) (\<lambda>_.
        bind (emit (RevalidatePath ''/'')) (\<lambda>_.
        return (Some ''complete''))))))))
       (\<lambda>error.
          bind (emit (ConsoleError ''An error occurred while creating exchanging token:'' (Some error))) (\<lambda>_.
          return None))"

text \<open>The cookies of the response after a trace: \<^verbatim>\<open>set\<close> stores a value under a name,
  \<^verbatim>\<open>delete\<close> removes it.\<close>

definition cookieJar :: "call list \<Rightarrow> (string \<rightharpoonup> string)" where
  "cookieJar t =
     foldl (\<lambda>jar c. case c of
                      CookiesSet n v \<Rightarrow> jar(n \<mapsto> v)
                    | CookiesDelete n \<Rightarrow> jar(n := None)
                    | _ \<Rightarrow> jar) Map.empty t"

section \<open>Bank actions (bank.actions.ts)\<close>

subsection \<open>Transaction sync\<close>

record 'n plaidTransaction =
  transaction_id :: string
  tx_name :: string
  payment_channel :: string
  tx_account_id :: string
  tx_amount :: 'n
  tx_pending :: bool
  tx_category :: "string list option"
  tx_date :: string
  logo_url :: "string option"

text \<open>A page of the sync endpoint; \<open>added\<close> is absent when the field is not an array.\<close>

record 'n syncData =
  added :: "'n plaidTransaction list option"
  next_cursor :: string
  has_more :: bool

record 'n transaction =
  t_id :: string
  t_name :: string
  paymentChannel :: string
  t_type :: string
  t_accountId :: string
  t_amount :: 'n
  pending :: bool
  category :: "string option"
  date :: string
  image :: "string option"

text \<open>The entry built from an added transaction. A category list that is present but empty
  has no first element, and the entry is left without a category.\<close>

definition addedTransaction :: "'n plaidTransaction \<Rightarrow> 'n transaction" where
  "addedTransaction transaction =
     \<lparr>t_id = transaction_id transaction,
      t_name = tx_name transaction,
      paymentChannel = payment_channel transaction,
      t_type = payment_channel transaction,
      t_accountId = tx_account_id transaction,
      t_amount = tx_amount transaction,
      pending = tx_pending transaction,
      category = (case tx_category transaction of
                    None \<Rightarrow> Some []
                  | Some [] \<Rightarrow> None
                  | Some (c # _) \<Rightarrow> Some c),
      date = tx_date transaction,
      image = logo_url transaction\<rparr>"

text \<open>
  The \<^verbatim>\<open>while (hasMore)\<close> loop of \<open>getTransactions\<close>. The sync endpoint answers its \<open>n\<close>-th
  request (counting from 0) by \<open>sync n\<close>, so its answers may depend on what was asked before.
  The loop need not end; when it does not, the value is \<open>None\<close>. Otherwise the value is the
  trace with either the error thrown inside the loop or the transactions collected.
\<close>

partial_function (option) syncLoop ::
  "(nat \<Rightarrow> syncRequest \<Rightarrow> jsError + 'n syncData) \<Rightarrow> string \<Rightarrow> nat \<Rightarrow> call list \<Rightarrow> bool \<Rightarrow>
   'n transaction list \<Rightarrow> string option \<Rightarrow> ('n transaction list) io option" where
  "syncLoop sync accessToken' n trace hasMore transactions cursor =
     (if hasMore then
        let requestParams = \<lparr>req_access_token = accessToken',
                               req_cursor = (case cursor of None \<Rightarrow> [] | Some c \<Rightarrow> c)\<rparr>
        in case sync n requestParams of
             Inl error \<Rightarrow> Some (trace @ [TransactionsSync requestParams], Inl error)
           | Inr page \<Rightarrow>
               (case added page of
                  Some entries \<Rightarrow>
                    syncLoop sync accessToken' (Suc n) (trace @ [TransactionsSync requestParams])
                      (has_more page) (transactions @ map addedTransaction entries)
                      (Some (next_cursor page))
                | None \<Rightarrow>
                    syncLoop sync accessToken' (Suc n)
                      (trace @ [TransactionsSync requestParams,
                                ConsoleError ''Error: response data.added is not an array'' None])
                      (has_more page) transactions (Some (next_cursor page)))
      else Some (trace, Inr transactions))"

declare syncLoop.simps [code]

text \<open>
  The \<^verbatim>\<open>catch\<close> block of \<open>getTransactions\<close>. For a response with status 400 it takes
  \<^verbatim>\<open>error.response.data.error_message || error.message || "Unknown error"\<close> and calls
  \<^verbatim>\<open>includes\<close> on it. Nothing encloses that call, so the TypeError of a message that is
  neither a string nor an array leaves \<open>getTransactions\<close>. The console line shows the text
  of a string message only.
\<close>

definition plaidMessage :: "jsError \<Rightarrow> jsValue option" where
  "plaidMessage error =
     (case response error of
        None \<Rightarrow> None
      | Some r \<Rightarrow> (case data r of None \<Rightarrow> None | Some plaidError \<Rightarrow> error_message plaidError))"

definition getTransactions_catch :: "jsError \<Rightarrow> ('n transaction list) io" where
  "getTransactions_catch error =
     bind (emit (ConsoleError ''An error occurred while getting transactions:'' (Some error))) (\<lambda>_.
     bind (case (case response error of None \<Rightarrow> None | Some r \<Rightarrow> data r) of
             Some plaidError \<Rightarrow> emit (ConsoleError ''Plaid API error details:'' None)
           | None \<Rightarrow> return ()) (\<lambda>_.
     if (case response error of None \<Rightarrow> False | Some r \<Rightarrow> status r = Some 400) then
       let plaidData = (case response error of None \<Rightarrow> None | Some r \<Rightarrow> data r);
           errorMessage =
             (case plaidMessage error of
                Some v \<Rightarrow>
                  if jsTruthy v then v
                  else if truthy (message error) then JsString (template (message error))
                  else JsString ''Unknown error''
              | None \<Rightarrow>
                  if truthy (message error) then JsString (template (message error))
                  else JsString ''Unknown error'');
           errorCode = (case plaidData of None \<Rightarrow> None | Some pd \<Rightarrow> error_code pd)
       in
       bind (emit (ConsoleError (''Plaid API 400 error: '' @
                      (case errorMessage of JsString s \<Rightarrow> s | _ \<Rightarrow> [])) None)) (\<lambda>_.
       case includesOf errorMessage of
         None \<Rightarrow> throw (Error ''errorMessage.includes is not a function'')
       | Some errorMessage_includes \<Rightarrow>
           if errorMessage_includes ''INVALID_ACCESS_TOKEN'' \<or>
              errorMessage_includes ''ITEM_LOGIN_REQUIRED'' then
             bind (emit (ConsoleError ''Access token is invalid or expired. User needs to re-link their bank account.'' None)) (\<lambda>_.
             return [])
           else if errorCode = Some ''ADDITIONAL_CONSENT_REQUIRED'' \<or>
                   errorMessage_includes ''PRODUCT_TRANSACTIONS'' then
             bind (emit (ConsoleError ''Bank account was linked without transactions consent. User needs to re-link the account with transactions product enabled.'' None)) (\<lambda>_.
             return [])
           else return [])
     else return []))"

definition getTransactions ::
  "(nat \<Rightarrow> syncRequest \<Rightarrow> jsError + 'n syncData) \<Rightarrow> string \<Rightarrow> ('n transaction list) io option" where
  "getTransactions sync accessToken' =
     (if accessToken' = [] then
        Some ([ConsoleError ''Access token is missing'' None], Inr [])
      else
        case syncLoop sync accessToken' 0 [] True [] None of
          None \<Rightarrow> None
        | Some run \<Rightarrow> Some (try_catch run getTransactions_catch))"

text \<open>
  Words for runs of the sync: the entries a page contributes, the sync requests of a trace,
  and the statement that the endpoint answers the requests of a run that starts with its
  \<open>k\<close>-th request at cursor \<open>c\<close> with the given pages, each request carrying the cursor of
  the page before.
\<close>

definition pageTransactions :: "'n syncData \<Rightarrow> 'n transaction list" where
  "pageTransactions page = (case added page of None \<Rightarrow> [] | Some entries \<Rightarrow> map addedTransaction entries)"

definition syncCalls :: "call list \<Rightarrow> syncRequest list" where
  "syncCalls t = concat (map (\<lambda>c. case c of TransactionsSync r \<Rightarrow> [r] | _ \<Rightarrow> []) t)"

fun servesPages ::
  "(nat \<Rightarrow> syncRequest \<Rightarrow> jsError + 'n syncData) \<Rightarrow> string \<Rightarrow> nat \<Rightarrow> string \<Rightarrow> 'n syncData list \<Rightarrow> bool" where
  "servesPages sync tok k c [] = True"
| "servesPages sync tok k c (page # pages) =
     (sync k \<lparr>req_access_token = tok, req_cursor = c\<rparr> = Inr page \<and>
      servesPages sync tok (Suc k) (next_cursor page) pages)"


fun runRequests :: "string \<Rightarrow> string \<Rightarrow> 'n syncData list \<Rightarrow> syncRequest list" where
  "runRequests tok c [] = []"
| "runRequests tok c (page # pages) =
     \<lparr>req_access_token = tok, req_cursor = c\<rparr> # runRequests tok (next_cursor page) pages"

subsection \<open>The merged feed of getAccount\<close>

text \<open>A transfer record of the document store and the feed entry \<open>getAccount\<close> makes of it for
  the bank with the given \<^verbatim>\<open>$id\<close>.\<close>

record 'n transferDoc =
  transfer_id :: string
  transfer_name :: string
  transfer_amount :: 'n
  createdAt :: string
  channel :: string
  transfer_category :: string
  senderBankId :: string
  receiverBankId :: string

record 'n transferTransaction =
  tr_id :: string
  tr_name :: string
  tr_amount :: 'n
  tr_date :: string
  tr_paymentChannel :: string
  tr_category :: string
  tr_type :: string

definition transferTransaction :: "string \<Rightarrow> 'n transferDoc \<Rightarrow> 'n transferTransaction" where
  "transferTransaction bankDocId transferData =
     \<lparr>tr_id = transfer_id transferData,
      tr_name = transfer_name transferData,
      tr_amount = transfer_amount transferData,
      tr_date = createdAt transferData,
      tr_paymentChannel = channel transferData,
      tr_category = transfer_category transferData,
      tr_type = (if senderBankId transferData = bankDocId then ''debit'' else ''credit'')\<rparr>"

text \<open>The feed of \<open>getAccount\<close> holds entries of both shapes; each has a \<^verbatim>\<open>date\<close>.
  \<open>allTransactions\<close> is the feed that \<open>getAccount\<close> builds from the provider transactions and
  the transfer entries: the former before the latter, sorted by the comparator on dates.\<close>

datatype 'n feedEntry = Provider "'n transaction" | Transfer "'n transferTransaction"

definition entryDate :: "'n feedEntry \<Rightarrow> string" where
  "entryDate e = (case e of Provider t \<Rightarrow> date t | Transfer t \<Rightarrow> tr_date t)"

text \<open>
  \<^verbatim>\<open>Array.prototype.sort\<close> with a comparator is stable: it orders the elements by the
  comparator and leaves elements that compare equal in their input order, and a comparator
  result of NaN (here \<open>None\<close>) counts as equal. The model inserts the elements one by one
  from the right, each before the first element it does not have to follow. When the
  comparator is not consistent, as happens when a date does not parse, the language leaves
  the order to the implementation; the model then fixes one such order.
\<close>

fun insertInOrder :: "('a \<Rightarrow> 'a \<Rightarrow> int option) \<Rightarrow> 'a \<Rightarrow> 'a list \<Rightarrow> 'a list" where
  "insertInOrder cmp x [] = [x]"
| "insertInOrder cmp x (y # ys) =
     (if (case cmp x y of None \<Rightarrow> True | Some v \<Rightarrow> v \<le> 0) then x # y # ys
      else y # insertInOrder cmp x ys)"

definition Array_sort :: "('a \<Rightarrow> 'a \<Rightarrow> int option) \<Rightarrow> 'a list \<Rightarrow> 'a list" where
  "Array_sort cmp xs = foldr (insertInOrder cmp) xs []"

text \<open>The comparator of \<open>getAccount\<close>. \<open>getTime\<close> stands for \<^verbatim>\<open>new Date(s).getTime()\<close>, the
  time of a date string in milliseconds, absent when the string is not a date.\<close>

definition byDateDescending ::
  "(string \<Rightarrow> int option) \<Rightarrow> 'n feedEntry \<Rightarrow> 'n feedEntry \<Rightarrow> int option" where
  "byDateDescending getTime a b =
     (case (getTime (entryDate b), getTime (entryDate a)) of
        (Some tb, Some ta) \<Rightarrow> Some (tb - ta)
      | _ \<Rightarrow> None)"

definition allTransactions ::
  "(string \<Rightarrow> int option) \<Rightarrow> 'n transaction list \<Rightarrow> 'n transferTransaction list \<Rightarrow> 'n feedEntry list" where
  "allTransactions getTime transactions transferTransactions =
     Array_sort (byDateDescending getTime)
       (map Provider transactions @ map Transfer transferTransactions)"

subsection \<open>Account aggregation\<close>

record 'n account =
  acc_id :: string
  availableBalance :: 'n
  currentBalance :: 'n
  institutionId :: string
  acc_name :: string
  officialName :: "string option"
  acc_mask :: string
  acc_type :: string
  acc_subtype :: string
  appwriteItemId :: string
  acc_shareableId :: "string option"

record 'n accountsResult =
  accounts_data :: "'n account list"
  totalBanks :: nat
  totalCurrentBalance :: 'n

definition getBanks :: "appwrite \<Rightarrow> string \<Rightarrow> bank list option io" where
  "getBanks a uid =
     try_catch
       (bind (await CreateAdminClient (createAdminClient a)) (\<lambda>_.
        bind (await (ListBankDocuments ''userId'' uid) (listBankDocuments a ''userId'' uid)) (\<lambda>banks.
        case banks of
          None \<Rightarrow> throw (Error ''undefined is not valid JSON'')
        | Some documents \<Rightarrow> return (Some documents))))
       (\<lambda>error. bind (emit (ConsoleLog ''error'')) (\<lambda>_. return None))"

definition getInstitution :: "'n plaid \<Rightarrow> string \<Rightarrow> institution option io" where
  "getInstitution p institutionId' =
     try_catch
       (bind (await (InstitutionsGetById institutionId') (institutionsGetById p institutionId'))
          (\<lambda>intitution. return (Some intitution)))
       (\<lambda>error. bind (emit (ConsoleError ''An error occurred while getting the accounts:'' (Some error))) (\<lambda>_.
          return None))"

text \<open>The function that \<open>getAccounts\<close> maps over the banks: the live fetch for one bank.\<close>

definition getAccounts_bank :: "'n plaid \<Rightarrow> bank \<Rightarrow> 'n account io" where
  "getAccounts_bank p bank =
     bind (await (AccountsGet (accessToken bank)) (accountsGet p (accessToken bank))) (\<lambda>accountsResponse.
     bind (getInstitution p (item_institution_id accountsResponse)) (\<lambda>institution.
     case accounts accountsResponse of
       [] \<Rightarrow> throw (typeError ''account_id'')
     | accountData # _ \<Rightarrow>
         (case institution of
            None \<Rightarrow> throw (typeError ''institution_id'')
          | Some inst \<Rightarrow>
              return
                \<lparr>acc_id = account_id accountData,
                 availableBalance = balances_available accountData,
                 currentBalance = balances_current accountData,
                 institutionId = institution_id inst,
                 acc_name = account_name accountData,
                 officialName = official_name accountData,
                 acc_mask = mask accountData,
                 acc_type = account_type accountData,
                 acc_subtype = subtype accountData,
                 appwriteItemId = bank_id bank,
                 acc_shareableId = Some (shareableId bank)\<rparr>)))"

text \<open>
  \<^verbatim>\<open>Promise.all\<close> fulfils with the values of all promises, in the order of the promises, and
  rejects as soon as one of them rejects. The fetches of the banks run interleaved, so the
  order of their requests is not fixed, and neither is the reason of a rejection when
  several fetches fail; \<open>getAccounts\<close> reads neither, and the model keeps the values only.
\<close>

fun Promise_all :: "(jsError + 'a) list \<Rightarrow> 'a list option" where
  "Promise_all [] = Some []"
| "Promise_all (Inl e # ps) = None"
| "Promise_all (Inr v # ps) = (case Promise_all ps of None \<Rightarrow> None | Some vs \<Rightarrow> Some (v # vs))"

text \<open>\<open>getAccounts\<close> returns undefined, here \<open>None\<close>, from its \<^verbatim>\<open>catch\<close> block.\<close>

definition getAccounts :: "appwrite \<Rightarrow> ('n::{zero,plus}) plaid \<Rightarrow> string \<Rightarrow> 'n accountsResult option" where
  "getAccounts a p uid =
     (case snd (getBanks a uid) of
        Inr (Some banks) \<Rightarrow>
          (case Promise_all (map (\<lambda>bank. snd (getAccounts_bank p bank)) banks) of
             None \<Rightarrow> None
           | Some accs \<Rightarrow>
               Some \<lparr>accounts_data = accs,
                     totalBanks = length accs,
                     totalCurrentBalance = foldl (\<lambda>total account. total + currentBalance account) 0 accs\<rparr>)
      | _ \<Rightarrow> None)"

subsection \<open>One account with its feed\<close>

text \<open>
  \<open>getAccount\<close> runs \<open>getTransactions\<close>, whose loop need not end, so its steps are chained
  with \<open>bindP\<close>, in which \<open>None\<close> is a run that does not end. \<open>getTransactionsByBankId\<close> is an
  action of transaction.actions.ts, which is not at hand; its answer for a bank, an error,
  undefined or the transfer records, is the parameter \<open>transfersOf\<close>.
\<close>

definition bindP :: "'a io option \<Rightarrow> ('a \<Rightarrow> 'b io option) \<Rightarrow> 'b io option" where
  "bindP m f =
     (case m of
        None \<Rightarrow> None
      | Some (t, Inl e) \<Rightarrow> Some (t, Inl e)
      | Some (t, Inr x) \<Rightarrow> (case f x of None \<Rightarrow> None | Some (t', r) \<Rightarrow> Some (t @ t', r)))"

definition getBank :: "appwrite \<Rightarrow> string \<Rightarrow> bank option io" where
  "getBank a documentId =
     try_catch
       (bind (await CreateAdminClient (createAdminClient a)) (\<lambda>_.
        bind (await (ListBankDocuments ''$id'' documentId) (listBankDocuments a ''$id'' documentId)) (\<lambda>found.
        case found of
          None \<Rightarrow> return None
        | Some [] \<Rightarrow> return None
        | Some (doc # _) \<Rightarrow> return (Some doc))))
       (\<lambda>error. bind (emit (ConsoleError ''Error getting bank:'' (Some error))) (\<lambda>_. return None))"

record 'n accountResult =
  account_data :: "'n account"
  account_transactions :: "'n feedEntry list"

definition getAccount ::
  "appwrite \<Rightarrow> 'n plaid \<Rightarrow> (nat \<Rightarrow> syncRequest \<Rightarrow> jsError + 'n syncData) \<Rightarrow>
   (string \<Rightarrow> jsError + 'n transferDoc list option) \<Rightarrow> (string \<Rightarrow> int option) \<Rightarrow> string \<Rightarrow>
   'n accountResult option io option" where
  "getAccount a p sync transfersOf getTime appwriteItemId' =
     map_option
       (\<lambda>run. try_catch run
          (\<lambda>error. bind (emit (ConsoleError ''An error occurred while getting the account:'' (Some error))) (\<lambda>_.
             return None)))
       (bindP (Some (getBank a appwriteItemId')) (\<lambda>found.
        case found of
          None \<Rightarrow>
            Some (bind (emit (ConsoleError (''Bank account not found for appwriteItemId: '' @ appwriteItemId') None)) (\<lambda>_.
                  return None))
        | Some bank \<Rightarrow>
        bindP (Some (emit (ConsoleLog ''Bank Data:''))) (\<lambda>_.
        if accessToken bank = [] then
          Some (bind (emit (ConsoleError ''Bank account missing accessToken'' None)) (\<lambda>_. return None))
        else
        bindP (Some (await (AccountsGet (accessToken bank)) (accountsGet p (accessToken bank)))) (\<lambda>accountsResponse.
        bindP (Some (emit (ConsoleLog ''Plaid Accounts Response:''))) (\<lambda>_.
        bindP (Some (await (GetTransactionsByBankId (bank_id bank)) (transfersOf (bank_id bank)))) (\<lambda>transferTransactionsData.
        case transferTransactionsData of
          None \<Rightarrow> Some (throw (typeError ''documents''))
        | Some documents \<Rightarrow>
        let transferTransactions = map (transferTransaction (bank_id bank)) documents in
        bindP (Some (getInstitution p (item_institution_id accountsResponse))) (\<lambda>institution.
        bindP (getTransactions sync (accessToken bank)) (\<lambda>transactions.
        case accounts accountsResponse of
          [] \<Rightarrow> Some (throw (typeError ''account_id''))
        | accountData # _ \<Rightarrow>
            (case institution of
               None \<Rightarrow> Some (throw (typeError ''institution_id''))
             | Some inst \<Rightarrow>
                 Some (return (Some
                   \<lparr>account_data =
                      \<lparr>acc_id = account_id accountData,
                       availableBalance = balances_available accountData,
                       currentBalance = balances_current accountData,
                       institutionId = institution_id inst,
                       acc_name = account_name accountData,
                       officialName = official_name accountData,
                       acc_mask = mask accountData,
                       acc_type = account_type accountData,
                       acc_subtype = subtype accountData,
                       appwriteItemId = bank_id bank,
                       acc_shareableId = None\<rparr>,
                    account_transactions =
                      allTransactions getTime transactions transferTransactions\<rparr>)))))))))))"

section \<open>Concrete scenarios\<close>

text \<open>Collaborators with fixed answers, used to run the actions on concrete inputs.\<close>

definition failingDwolla :: dwolla where
  "failingDwolla =
     \<lparr>DWOLLA_KEY = Some ''key'', DWOLLA_SECRET = Some ''secret'', DWOLLA_ENV = Some ''sandbox'',
      post = (\<lambda>url payload. Inl (Error ''Request failed with status 500'')),
      JSON_parse = (\<lambda>s. None)\<rparr>"

text \<open>
  The payment rail rejecting a customer whose state is not a US state, as the dwolla-v2
  client reports it: the rejection is an Error whose message is the text of the response
  body, and \<^verbatim>\<open>JSON.parse\<close> of that text gives the body with its embedded list of errors.
\<close>

definition stateRejectionText :: string where
  \<open>stateRejectionText =
     ''{"_embedded":{"errors":[{"path":"/state","message":"must be a US state"}]}}''\<close>

definition stateRejectionBody :: errorBody where
  "stateRejectionBody =
     \<lparr>embedded_errors = Some [\<lparr>path = Some ''/state'', fe_message = Some ''must be a US state''\<rparr>],
      body_message = None,
      body_json = stateRejectionText\<rparr>"

definition stateRejected :: jsError where
  "stateRejected = \<lparr>message = Some stateRejectionText, code = None, response = None\<rparr>"

definition stateRejectingDwolla :: dwolla where
  "stateRejectingDwolla =
     \<lparr>DWOLLA_KEY = Some ''key'', DWOLLA_SECRET = Some ''secret'', DWOLLA_ENV = Some ''sandbox'',
      post = (\<lambda>url payload. Inl stateRejected),
      JSON_parse = (\<lambda>s. if s = stateRejectionText then Some stateRejectionBody else None)\<rparr>"

definition unauthorizedProfileError :: jsError where
  "unauthorizedProfileError =
     \<lparr>message = Some ''Unauthorized: invalid credentials for Profile lookup'', code = Some 401,
      response = None\<rparr>"

definition orphanStore :: appwrite where
  "orphanStore =
     \<lparr>createAdminClient = Inr (),
      account_create = (\<lambda>mail password name.
         Inl \<lparr>message = Some ''A user with the same id, email, or phone already exists in this project.'',
              code = Some 409, response = None\<rparr>),
      createEmailPasswordSession = (\<lambda>mail password.
         if mail = ''a@x.com'' \<and> password = ''secret1'' then
           Inr \<lparr>session_id = ''session-1'', session_userId = ''user-1'', secret = ''token-1''\<rparr>
         else
           Inl \<lparr>message = Some ''Invalid credentials. Please check the email and password.'',
                code = Some 401, response = None\<rparr>),
      deleteSession = (\<lambda>sid. Inr ()),
      deleteIdentity = (\<lambda>uid. Inr ()),
      account_get = Inr \<lparr>ua_id = ''user-1'', ua_email = ''a@x.com''\<rparr>,
      listUserDocuments = (\<lambda>uid. Inr (Some [])),
      createUserDocument = (\<lambda>profile. Inr (Some (userProfile.extend profile (userDoc.fields ''doc-1'')))),
      createBankDocument = (\<lambda>b. Inr (bankData.extend b (bank.fields ''bank-1''))),
      listBankDocuments = (\<lambda>field v. Inr (Some [])),
      extractCustomerIdFromUrl = (\<lambda>url. url),
      encryptId = (\<lambda>i. i)\<rparr>"

definition freshStore :: appwrite where
  "freshStore = orphanStore\<lparr>account_create := (\<lambda>mail password name.
     Inr (Some \<lparr>ua_id = ''user-1'', ua_email = mail\<rparr>))\<rparr>"

definition someUser :: userData where
  "someUser = \<lparr>firstName = ''A'', lastName = ''X'', address1 = ''1 Main St'', city = ''Town'',
     state = ''ZZ'', postalCode = ''11101'', dateOfBirth = ''1990-01-01'', ssn = ''1234'',
     email = ''a@x.com''\<rparr>"

definition someCustomer :: newDwollaCustomerParams where
  "someCustomer = personal someUser"

definition linkingPlaid :: "int plaid" where
  "linkingPlaid =
     \<lparr>itemPublicTokenExchange = (\<lambda>publicToken.
         Inr \<lparr>access_token = ''access-1'', item_id = ''item-1''\<rparr>),
      accountsGet = (\<lambda>token.
         Inr \<lparr>accounts = [\<lparr>account_id = ''acc-1'', balances_available = 100, balances_current = 110,
                              account_name = ''Checking'', official_name = Some ''Plaid Checking'',
                              mask = ''0000'', account_type = ''depository'', subtype = ''checking''\<rparr>],
              item_institution_id = ''ins-1''\<rparr>),
      processorTokenCreate = (\<lambda>token account processor. Inr ''processor-1''),
      institutionsGetById = (\<lambda>i. Inr \<lparr>institution_id = i, institution_name = ''Bank''\<rparr>)\<rparr>"

definition linkedUser :: userDoc where
  "linkedUser =
     \<lparr>firstName = ''A'', lastName = ''X'', address1 = ''1 Main St'', city = ''Town'',
      state = ''NY'', postalCode = ''11101'', dateOfBirth = ''1990-01-01'', ssn = ''1234'',
      email = ''a@x.com'', userId = ''user-1'', dwollaCustomerId = ''customer-1'',
      dwollaCustomerUrl = ''https://api.dwolla.com/customers/customer-1'', user_id = ''doc-1''\<rparr>"

definition workingDwolla :: dwolla where
  "workingDwolla =
     \<lparr>DWOLLA_KEY = Some ''key'', DWOLLA_SECRET = Some ''secret'', DWOLLA_ENV = Some ''sandbox'',
      post = (\<lambda>url payload. Inr \<lparr>location = Some (''https://api.dwolla.com/'' @ url @ ''/1''),
                                     body_links = Some (Some ''links'')\<rparr>),
      JSON_parse = (\<lambda>s. None)\<rparr>"

text \<open>A payment rail that refuses on-demand authorizations and serves every other request,
  and one that accepts every request but names no location in its answer.\<close>

definition authFailingDwolla :: dwolla where
  "authFailingDwolla = workingDwolla\<lparr>post := (\<lambda>url payload.
     if url = ''on-demand-authorizations'' then Inl (Error ''Request failed with status 500'')
     else post workingDwolla url payload)\<rparr>"

definition noLocationDwolla :: dwolla where
  "noLocationDwolla = workingDwolla\<lparr>post := (\<lambda>url payload.
     Inr \<lparr>location = None, body_links = Some (Some ''links'')\<rparr>)\<rparr>"

definition coffee :: "string \<Rightarrow> int plaidTransaction" where
  "coffee i =
     \<lparr>transaction_id = i, tx_name = ''Coffee'', payment_channel = ''in store'',
      tx_account_id = ''acc-1'', tx_amount = 4, tx_pending = False, tx_category = Some [''Food''],
      tx_date = ''2024-03-01'', logo_url = None\<rparr>"

definition threePages :: "nat \<Rightarrow> syncRequest \<Rightarrow> jsError + int syncData" where
  "threePages n request =
     Inr \<lparr>added = Some [coffee (''t'' @ req_cursor request)],
          next_cursor = req_cursor request @ ''x'', has_more = (n < 2)\<rparr>"

definition threeAnswers :: "int syncData list" where
  "threeAnswers =
     [\<lparr>added = Some [coffee ''t''], next_cursor = ''x'', has_more = True\<rparr>,
      \<lparr>added = Some [coffee ''tx''], next_cursor = ''xx'', has_more = True\<rparr>,
      \<lparr>added = Some [coffee ''txx''], next_cursor = ''xxx'', has_more = False\<rparr>]"





definition calendar :: "string \<Rightarrow> int option" where
  "calendar s =
     (if s = ''2024-03-01'' then Some 1709251200000
      else if s = ''2024-03-05'' then Some 1709596800000
      else if s = ''2024-03-05T00:00:00.000+00:00'' then Some 1709596800000
      else if s = ''2024-03-05T10:00:00.000+00:00'' then Some 1709632800000
      else if s = ''2024-03-06T10:00:00.000+00:00'' then Some 1709719200000
      else None)"

definition purchase :: "string \<Rightarrow> string \<Rightarrow> int transaction" where
  "purchase i d =
     \<lparr>t_id = i, t_name = ''Coffee'', paymentChannel = ''in store'', t_type = ''in store'',
      t_accountId = ''acc-1'', t_amount = 4, pending = False, category = Some ''Food'', date = d,
      image = None\<rparr>"

definition sent :: "string \<Rightarrow> string \<Rightarrow> int transferTransaction" where
  "sent i d =
     \<lparr>tr_id = i, tr_name = ''Transfer'', tr_amount = 25, tr_date = d, tr_paymentChannel = ''online'',
      tr_category = ''Transfer'', tr_type = ''debit''\<rparr>"

text \<open>One linked bank, the two purchases its item has at the provider, served in one page, and
  the three transfers recorded for it.\<close>

definition oneBankStore :: appwrite where
  "oneBankStore = orphanStore\<lparr>listBankDocuments := (\<lambda>field v.
     Inr (Some [\<lparr>bank_userId = ''user-1'', bankId = ''item-1'', accountId = ''acc-1'',
                  accessToken = ''access-1'', fundingSourceUrl = ''fs-1'', shareableId = ''share-1'',
                  bank_id = ''bank-1''\<rparr>]))\<rparr>"

definition twoPurchases :: "nat \<Rightarrow> syncRequest \<Rightarrow> jsError + int syncData" where
  "twoPurchases n request =
     Inr \<lparr>added = Some [(coffee ''p1'')\<lparr>tx_date := ''2024-03-05''\<rparr>, coffee ''p2''],
          next_cursor = ''x'', has_more = False\<rparr>"

definition transferRecord :: "string \<Rightarrow> string \<Rightarrow> int transferDoc" where
  "transferRecord i d =
     \<lparr>transfer_id = i, transfer_name = ''Transfer'', transfer_amount = 25, createdAt = d,
      channel = ''online'', transfer_category = ''Transfer'', senderBankId = ''bank-1'',
      receiverBankId = ''bank-2''\<rparr>"

definition threeTransfers :: "string \<Rightarrow> jsError + int transferDoc list option" where
  "threeTransfers bankDocId =
     Inr (Some [transferRecord ''r1'' ''2024-03-05T00:00:00.000+00:00'',
                transferRecord ''r2'' ''2024-03-05T10:00:00.000+00:00'',
                transferRecord ''r3'' ''2024-03-06T10:00:00.000+00:00''])"

definition threeBankStore :: appwrite where
  "threeBankStore = orphanStore\<lparr>listBankDocuments := (\<lambda>field v.
     Inr (Some [\<lparr>bank_userId = v, bankId = ''item-1'', accountId = ''acc-1'', accessToken = ''access-1'',
                  fundingSourceUrl = ''fs-1'', shareableId = ''share-1'', bank_id = ''bank-1''\<rparr>,
                \<lparr>bank_userId = v, bankId = ''item-2'', accountId = ''acc-2'', accessToken = ''access-2'',
                  fundingSourceUrl = ''fs-2'', shareableId = ''share-2'', bank_id = ''bank-2''\<rparr>,
                \<lparr>bank_userId = v, bankId = ''item-3'', accountId = ''acc-3'', accessToken = ''access-3'',
                  fundingSourceUrl = ''fs-3'', shareableId = ''share-3'', bank_id = ''bank-3''\<rparr>]))\<rparr>"

definition liveAccount :: "string \<Rightarrow> int \<Rightarrow> int accountsGetResponse" where
  "liveAccount i balance =
     \<lparr>accounts = [\<lparr>account_id = i, balances_available = balance, balances_current = balance,
                    account_name = ''Checking'', official_name = None, mask = ''0000'',
                    account_type = ''depository'', subtype = ''checking''\<rparr>],
      item_institution_id = ''ins-1''\<rparr>"

definition steadyPlaid :: "int plaid" where
  "steadyPlaid = linkingPlaid\<lparr>accountsGet := (\<lambda>token.
     if token = ''access-1'' then Inr (liveAccount ''acc-1'' 100)
     else if token = ''access-2'' then Inr (liveAccount ''acc-2'' 200)
     else Inr (liveAccount ''acc-3'' 300))\<rparr>"

definition flakyPlaid :: "int plaid" where
  "flakyPlaid = linkingPlaid\<lparr>accountsGet := (\<lambda>token.
     if token = ''access-1'' then Inr (liveAccount ''acc-1'' 100)
     else if token = ''access-2'' then Inl (Error ''Request failed with status code 500'')
     else Inr (liveAccount ''acc-3'' 300))\<rparr>"

definition aggregated :: "string \<Rightarrow> string \<Rightarrow> string \<Rightarrow> int \<Rightarrow> int account" where
  "aggregated i docId share balance =
     \<lparr>acc_id = i, availableBalance = balance, currentBalance = balance, institutionId = ''ins-1'',
      acc_name = ''Checking'', officialName = None, acc_mask = ''0000'', acc_type = ''depository'',
      acc_subtype = ''checking'', appwriteItemId = docId, acc_shareableId = Some share\<rparr>"

section \<open>Properties\<close>

lemmas io_defs = return_def throw_def emit_def await_def bind_def try_catch_def

lemmas createDwollaCustomer_defs =
  createDwollaCustomer_def createDwollaCustomer_try_def createDwollaCustomer_catch_def

subsection \<open>Payment-rail actions report failure by returning undefined\<close>

text \<open>
  C10. \<open>createFundingSource\<close>, \<open>createOnDemandAuthorization\<close> and \<open>createTransfer\<close> never throw
  to their caller, whatever the payment-rail client answers: each returns a value. When the
  request fails, the error is written to the console and the value returned is undefined,
  so an undefined result is the only failure signal of these actions.
\<close>

theorem payment_rail_actions_never_throw:
  "(\<exists>t v. createFundingSource d options = (t, Inr v)) \<and>
   (\<exists>t v. createOnDemandAuthorization d = (t, Inr v)) \<and>
   (\<exists>t v. createTransfer d params = (t, Inr v)) \<and>
   (\<forall>err. post d (''customers/'' @ customerId options @ ''/funding-sources'')
             (FundingSourcePayload (fundingSourceName options) (plaidToken options)) = Inl err \<longrightarrow>
      createFundingSource d options =
        ([DwollaPost (''customers/'' @ customerId options @ ''/funding-sources'')
            (FundingSourcePayload (fundingSourceName options) (plaidToken options)),
          ConsoleError ''Creating a Funding Source Failed: '' (Some err)], Inr None)) \<and>
   (\<forall>err. post d ''on-demand-authorizations'' NoPayload = Inl err \<longrightarrow>
      createOnDemandAuthorization d =
        ([DwollaPost ''on-demand-authorizations'' NoPayload,
          ConsoleError ''Creating an On Demand Authorization Failed: '' (Some err)], Inr None)) \<and>
   (\<forall>err. post d ''transfers'' (TransferPayload (sourceFundingSourceUrl params)
             (destinationFundingSourceUrl params) (amount params)) = Inl err \<longrightarrow>
      createTransfer d params =
        ([DwollaPost ''transfers'' (TransferPayload (sourceFundingSourceUrl params)
            (destinationFundingSourceUrl params) (amount params)),
          ConsoleError ''Transfer fund failed: '' (Some err)], Inr None))"
proof (intro conjI allI impI)
  show "\<exists>t v. createFundingSource d options = (t, Inr v)"
    by (simp add: createFundingSource_def io_defs Let_def split: sum.split)
  show "\<exists>t v. createOnDemandAuthorization d = (t, Inr v)"
    by (simp add: createOnDemandAuthorization_def io_defs split: sum.split option.split)
  show "\<exists>t v. createTransfer d params = (t, Inr v)"
    by (simp add: createTransfer_def io_defs Let_def split: sum.split)
next
  fix err
  assume "post d (''customers/'' @ customerId options @ ''/funding-sources'')
             (FundingSourcePayload (fundingSourceName options) (plaidToken options)) = Inl err"
  then show "createFundingSource d options =
        ([DwollaPost (''customers/'' @ customerId options @ ''/funding-sources'')
            (FundingSourcePayload (fundingSourceName options) (plaidToken options)),
          ConsoleError ''Creating a Funding Source Failed: '' (Some err)], Inr None)"
    by (simp add: createFundingSource_def io_defs Let_def)
next
  fix err
  assume "post d ''on-demand-authorizations'' NoPayload = Inl err"
  then show "createOnDemandAuthorization d =
        ([DwollaPost ''on-demand-authorizations'' NoPayload,
          ConsoleError ''Creating an On Demand Authorization Failed: '' (Some err)], Inr None)"
    by (simp add: createOnDemandAuthorization_def io_defs)
next
  fix err
  assume "post d ''transfers'' (TransferPayload (sourceFundingSourceUrl params)
             (destinationFundingSourceUrl params) (amount params)) = Inl err"
  then show "createTransfer d params =
        ([DwollaPost ''transfers'' (TransferPayload (sourceFundingSourceUrl params)
            (destinationFundingSourceUrl params) (amount params)),
          ConsoleError ''Transfer fund failed: '' (Some err)], Inr None)"
    by (simp add: createTransfer_def io_defs Let_def)
qed

theorem payment_rail_actions_never_throw_witness:
  "post failingDwolla ''transfers'' (TransferPayload ''src'' ''dst'' ''10.00'')
     = Inl (Error ''Request failed with status 500'') \<and>
   createTransfer failingDwolla
       \<lparr>sourceFundingSourceUrl = ''src'', destinationFundingSourceUrl = ''dst'', amount = ''10.00''\<rparr> =
     ([DwollaPost ''transfers'' (TransferPayload ''src'' ''dst'' ''10.00''),
       ConsoleError ''Transfer fund failed: '' (Some (Error ''Request failed with status 500''))], Inr None) \<and>
   post failingDwolla ''on-demand-authorizations'' NoPayload = Inl (Error ''Request failed with status 500'') \<and>
   createOnDemandAuthorization failingDwolla =
     ([DwollaPost ''on-demand-authorizations'' NoPayload,
       ConsoleError ''Creating an On Demand Authorization Failed: ''
         (Some (Error ''Request failed with status 500''))], Inr None) \<and>
   post failingDwolla ''customers/c1/funding-sources'' (FundingSourcePayload ''Checking'' ''tok'')
     = Inl (Error ''Request failed with status 500'') \<and>
   createFundingSource failingDwolla
       \<lparr>customerId = ''c1'', fundingSourceName = ''Checking'', plaidToken = ''tok'', links = None\<rparr> =
     ([DwollaPost ''customers/c1/funding-sources'' (FundingSourcePayload ''Checking'' ''tok''),
       ConsoleError ''Creating a Funding Source Failed: ''
         (Some (Error ''Request failed with status 500''))], Inr None)"
  using payment_rail_actions_never_throw
    [of failingDwolla
        "\<lparr>customerId = ''c1'', fundingSourceName = ''Checking'', plaidToken = ''tok'', links = None\<rparr>"
        "\<lparr>sourceFundingSourceUrl = ''src'', destinationFundingSourceUrl = ''dst'', amount = ''10.00''\<rparr>"]
  by (simp add: failingDwolla_def)

subsection \<open>Validation failures of customer creation\<close>

text \<open>The branch of the handler that reads \<^verbatim>\<open>err.response.body\<close> turns an embedded list of
  errors into a validation error, and the list of the scenario reads as the spec says.\<close>

lemma createDwollaCustomer_catch_response_body:
  assumes "response err = Some r" and "body r = Some errorBody"
    and "embedded_errors errorBody = Some errors"
  shows "snd (createDwollaCustomer_catch d err) =
           Inl (Error (''Validation error: '' @ validationErrors errors))"
  using assms by (simp add: createDwollaCustomer_catch_def io_defs)

text \<open>An error without a response and with a message ends in the general failure, whatever
  the message parses to: what the block that parses it throws is dropped.\<close>

lemma createDwollaCustomer_catch_message_only:
  assumes "response err = None" and "message err = Some m" and "m \<noteq> []"
  shows "snd (createDwollaCustomer_catch d err) =
           Inl (Error (''Dwolla customer creation failed: '' @ m))"
proof (cases "JSON_parse d m")
  case None
  with assms show ?thesis
    by (simp add: createDwollaCustomer_catch_def io_defs truthy_def template_def)
next
  case (Some parsedError)
  with assms show ?thesis
    by (cases "embedded_errors parsedError")
       (simp_all add: createDwollaCustomer_catch_def io_defs truthy_def template_def)
qed

text \<open>
  C9 fails on the code. The payment rail rejects the customer of the scenario with the body
  \<^verbatim>\<open>{"_embedded":{"errors":[{"path":"/state","message":"must be a US state"}]}}\<close>. The client
  reports it as an error whose message is that text and which has no response. The text
  parses to the embedded list, whose pairs read "state: must be a US state", yet
  \<open>createDwollaCustomer\<close> throws the general failure with the raw text, not the validation
  error.
\<close>

theorem createDwollaCustomer_validation_error_dropped:
  "post stateRejectingDwolla ''customers'' (CustomerPayload someCustomer) = Inl stateRejected \<and>
   response stateRejected = None \<and>
   message stateRejected = Some stateRejectionText \<and>
   JSON_parse stateRejectingDwolla stateRejectionText = Some stateRejectionBody \<and>
   embedded_errors stateRejectionBody =
     Some [\<lparr>path = Some ''/state'', fe_message = Some ''must be a US state''\<rparr>] \<and>
   validationErrors [\<lparr>path = Some ''/state'', fe_message = Some ''must be a US state''\<rparr>] =
     ''state: must be a US state'' \<and>
   createDwollaCustomer stateRejectingDwolla someCustomer =
     ([ConsoleLog ''Creating Dwolla customer with data:'',
       DwollaPost ''customers'' (CustomerPayload someCustomer),
       ConsoleError ''Creating a Dwolla Customer Failed - Full Error:'' (Some stateRejected)],
      Inl (Error (''Dwolla customer creation failed: '' @ stateRejectionText))) \<and>
   snd (createDwollaCustomer stateRejectingDwolla someCustomer) \<noteq>
     Inl (Error ''Validation error: state: must be a US state'')"
proof -
  have v: "validationErrors [\<lparr>path = Some ''/state'', fe_message = Some ''must be a US state''\<rparr>] =
             ''state: must be a US state''"
    by (simp add: validationErrors_def template_def)
  have c: "createDwollaCustomer stateRejectingDwolla someCustomer =
     ([ConsoleLog ''Creating Dwolla customer with data:'',
       DwollaPost ''customers'' (CustomerPayload someCustomer),
       ConsoleError ''Creating a Dwolla Customer Failed - Full Error:'' (Some stateRejected)],
      Inl (Error (''Dwolla customer creation failed: '' @ stateRejectionText)))"
    by (simp add: createDwollaCustomer_defs io_defs stateRejectingDwolla_def stateRejected_def
          stateRejectionBody_def truthy_def template_def validationErrors_def stateRejectionText_def)
  show ?thesis
    unfolding c using v
    by (simp add: stateRejectingDwolla_def stateRejected_def stateRejectionBody_def Error_def)
qed

subsection \<open>Facts about strings\<close>

lemma str_includes_iff: "str_includes s p \<longleftrightarrow> (\<exists>u v. s = u @ p @ v)"
proof (induction s)
  case Nil
  then show ?case by auto
next
  case (Cons c cs)
  show ?case
  proof
    assume "str_includes (c # cs) p"
    then consider "take (length p) (c # cs) = p" | "str_includes cs p" by auto
    then show "\<exists>u v. c # cs = u @ p @ v"
    proof cases
      case 1
      then have "c # cs = [] @ p @ drop (length p) (c # cs)"
        by (metis append_Nil append_take_drop_id)
      then show ?thesis by blast
    next
      case 2
      then obtain u v where "cs = u @ p @ v" using Cons.IH by blast
      then have "c # cs = (c # u) @ p @ v" by simp
      then show ?thesis by blast
    qed
  next
    assume "\<exists>u v. c # cs = u @ p @ v"
    then obtain u v where e: "c # cs = u @ p @ v" by blast
    show "str_includes (c # cs) p"
    proof (cases u)
      case Nil
      with e have "take (length p) (c # cs) = p" by simp
      then show ?thesis by simp
    next
      case (Cons a u')
      with e have "cs = u' @ p @ v" by simp
      then have "str_includes cs p" using Cons.IH by blast
      then show ?thesis by simp
    qed
  qed
qed

lemma replace_absent: "\<not> str_includes s p \<Longrightarrow> replace s p r = s"
  by (induction s) auto

lemma replace_present:
  "str_includes s p \<Longrightarrow> \<exists>x y. s = x @ p @ y \<and> replace s p r = x @ r @ y"
proof (induction s)
  case Nil
  then show ?case by auto
next
  case (Cons c cs)
  show ?case
  proof (cases "take (length p) (c # cs) = p")
    case True
    then have "c # cs = [] @ p @ drop (length p) (c # cs)"
      by (metis append_Nil append_take_drop_id)
    moreover have "replace (c # cs) p r = [] @ r @ drop (length p) (c # cs)"
      using True by simp
    ultimately show ?thesis by blast
  next
    case False
    with Cons.prems have "str_includes cs p" by simp
    then obtain x y where "cs = x @ p @ y" "replace cs p r = x @ r @ y"
      using Cons.IH by blast
    then have "c # cs = (c # x) @ p @ y" "replace (c # cs) p r = (c # x) @ r @ y"
      using False by simp_all
    then show ?thesis by blast
  qed
qed

lemma append_eq_cases:
  assumes "xs @ ys = zs @ ts"
  obtains us where "xs = zs @ us" and "us @ ys = ts"
        | us where "xs @ us = zs" and "ys = us @ ts"
  using assms by (auto simp: append_eq_append_conv2)

lemma cut_keeps_occurrence:
  assumes e: "X @ A @ Y = u @ P @ v"
    and "A \<noteq> []" and "P \<noteq> []"
    and hp: "hd P \<notin> set A" and ha: "hd A \<notin> set (tl P)"
  shows "\<exists>u' v'. X @ Y = u' @ P @ v'"
  using e
proof (cases rule: append_eq_cases)
  case (1 us)
  from 1(2) show ?thesis
  proof (cases rule: append_eq_cases)
    case (1 ws)
    with \<open>X = u @ us\<close> have "X @ Y = u @ P @ (ws @ Y)" by simp
    then show ?thesis by blast
  next
    case (2 ws)
    show ?thesis
    proof (cases "ws = []")
      case True
      with 2 \<open>X = u @ us\<close> have "X @ Y = u @ P @ Y" by simp
      then show ?thesis by blast
    next
      case False
      with 2(2) \<open>A \<noteq> []\<close> have h: "hd A = hd ws"
        by (metis hd_append2)
      show ?thesis
      proof (cases "us = []")
        case True
        with 2(1) h have "hd P = hd A" by simp
        with hp \<open>A \<noteq> []\<close> show ?thesis by (metis hd_in_set)
      next
        case usne: False
        then have "tl P = tl us @ ws" using 2(1) by (metis tl_append2)
        with False have "hd ws \<in> set (tl P)" by simp
        with h ha show ?thesis by simp
      qed
    qed
  qed
next
  case (2 us)
  from 2(2) show ?thesis
  proof (cases rule: append_eq_cases)
    case (1 ws)
    show ?thesis
    proof (cases "ws = []")
      case True
      with 1 have "X @ Y = X @ P @ v" by simp
      then show ?thesis by blast
    next
      case False
      with 1(2) \<open>P \<noteq> []\<close> have "hd P = hd ws" by (metis hd_append2)
      with False 1(1) have "hd P \<in> set A" by (metis hd_in_set Un_iff set_append)
      with hp show ?thesis by simp
    qed
  next
    case (2 ws)
    then have "X @ Y = (X @ ws) @ P @ v" by simp
    then show ?thesis by blast
  qed
qed

lemma replace_keeps_marker:
  assumes "str_includes (toLowerCase s) P" and "A \<noteq> []" and "P \<noteq> []"
    and "hd P \<notin> set (toLowerCase A)" and "hd (toLowerCase A) \<notin> set (tl P)"
  shows "str_includes (toLowerCase (replace s A [])) P"
proof (cases "str_includes s A")
  case False
  then show ?thesis using assms(1) by (simp add: replace_absent)
next
  case True
  then obtain x y where s: "s = x @ A @ y" and r: "replace s A [] = x @ [] @ y"
    using replace_present by blast
  from assms(1) obtain u v where "toLowerCase s = u @ P @ v"
    by (auto simp: str_includes_iff)
  with s have "toLowerCase x @ toLowerCase A @ toLowerCase y = u @ P @ v"
    by (simp add: toLowerCase_def)
  moreover have "toLowerCase A \<noteq> []" using assms(2) by (simp add: toLowerCase_def)
  ultimately obtain u' v' where "toLowerCase x @ toLowerCase y = u' @ P @ v'"
    using cut_keeps_occurrence assms(3-5) by blast
  then show ?thesis using r by (auto simp: str_includes_iff toLowerCase_def)
qed

lemma str_includes_lower:
  assumes "str_includes s p"
  shows "str_includes (toLowerCase s) (toLowerCase p)"
proof -
  from assms obtain u v where "s = u @ p @ v" by (auto simp: str_includes_iff)
  then have "toLowerCase s = toLowerCase u @ toLowerCase p @ toLowerCase v"
    by (simp add: toLowerCase_def)
  then show ?thesis unfolding str_includes_iff by blast
qed

lemma str_includes_prefix: "str_includes s (p @ q) \<Longrightarrow> str_includes s p"
  by (metis append.assoc str_includes_iff)

subsection \<open>A profile marker suppresses the invalid-credentials classification\<close>

lemma branch_message_original:
  assumes "onSubmit_branch error = OriginalMessage" and "message error = Some m"
  shows "replace m ''PROFILE_DATA_MISSING: '' [] = m"
proof -
  have "\<not> str_includes (toLowerCase m) ''profile_data_missing''"
    using assms by (auto simp: onSubmit_branch_def template_def Let_def split: if_splits)
  moreover have "toLowerCase ''PROFILE_DATA_MISSING: '' = ''profile_data_missing'' @ '': ''"
    by code_simp
  ultimately have "\<not> str_includes m ''PROFILE_DATA_MISSING: ''"
    by (metis str_includes_lower str_includes_prefix)
  then show ?thesis by (rule replace_absent)
qed

lemma validation_message_keeps_profile:
  assumes "str_includes (toLowerCase m) ''profile''"
  shows "str_includes
           (toLowerCase (replace (replace m ''Dwolla customer creation failed: '' []) ''Validation error: '' []))
           ''profile''"
proof -
  have a: "hd ''profile'' \<notin> set (toLowerCase ''Dwolla customer creation failed: '')"
          "hd (toLowerCase ''Dwolla customer creation failed: '') \<notin> set (tl ''profile'')"
    by code_simp+
  have b: "hd ''profile'' \<notin> set (toLowerCase ''Validation error: '')"
          "hd (toLowerCase ''Validation error: '') \<notin> set (tl ''profile'')"
    by code_simp+
  have s1: "str_includes (toLowerCase (replace m ''Dwolla customer creation failed: '' [])) ''profile''"
    by (rule replace_keeps_marker[OF assms _ _ a]) simp_all
  show ?thesis
    by (rule replace_keeps_marker[OF s1 _ _ b]) simp_all
qed

text \<open>
  C3. For every error whose lower-cased message contains "profile", the form does not take
  its invalid-credentials branch and does not show the invalid-credentials message, and
  \<open>signIn\<close> does not classify the error as invalid credentials: its handler throws the error
  it caught, unchanged.
\<close>

theorem profile_suppresses_invalid_credentials:
  assumes m: "message error = Some m" and p: "str_includes (toLowerCase m) ''profile''"
  shows "onSubmit_branch error \<noteq> InvalidCredentials \<and>
         onSubmit_errorMessage error \<noteq> ''Invalid email or password. Please try again.'' \<and>
         \<not> isInvalidCredentials error \<and>
         snd (signIn_catch error) = Inl error"
proof (intro conjI)
  show br: "onSubmit_branch error \<noteq> InvalidCredentials"
    using m p by (simp add: onSubmit_branch_def template_def Let_def)
  have np: "\<not> str_includes (toLowerCase ''Invalid email or password. Please try again.'') ''profile''"
    by code_simp
  show "onSubmit_errorMessage error \<noteq> ''Invalid email or password. Please try again.''"
  proof (cases "onSubmit_branch error")
    case ValidationError
    show ?thesis
    proof (cases "str_includes (toLowerCase m) ''state''")
      case True
      with ValidationError m show ?thesis
        by (simp add: onSubmit_errorMessage_def template_def)
    next
      case False
      have "str_includes (toLowerCase (onSubmit_errorMessage error)) ''profile''"
        using False ValidationError m validation_message_keeps_profile[OF p]
        by (simp add: onSubmit_errorMessage_def template_def)
      with np show ?thesis by metis
    qed
  next
    case OriginalMessage
    then have "onSubmit_errorMessage error = m"
      using branch_message_original[OF OriginalMessage m] m
      by (simp add: onSubmit_errorMessage_def template_def)
    with p np show ?thesis by metis
  qed (use br in \<open>simp_all add: onSubmit_errorMessage_def\<close>)
  show "\<not> isInvalidCredentials error"
    using m p by (simp add: isInvalidCredentials_def)
  show "snd (signIn_catch error) = Inl error"
    using m p by (simp add: isInvalidCredentials_def signIn_catch_def io_defs)
qed

theorem profile_suppresses_invalid_credentials_witness:
  "str_includes (toLowerCase ''Unauthorized: invalid credentials for Profile lookup'') ''profile'' \<and>
   str_includes (toLowerCase ''Unauthorized: invalid credentials for Profile lookup'') ''invalid credentials'' \<and>
   onSubmit_branch unauthorizedProfileError \<noteq> InvalidCredentials \<and>
   onSubmit_errorMessage unauthorizedProfileError \<noteq> ''Invalid email or password. Please try again.'' \<and>
   \<not> isInvalidCredentials unauthorizedProfileError \<and>
   snd (signIn_catch unauthorizedProfileError) = Inl unauthorizedProfileError"
proof -
  have m: "message unauthorizedProfileError = Some ''Unauthorized: invalid credentials for Profile lookup''"
    by (simp add: unauthorizedProfileError_def)
  have p: "str_includes (toLowerCase ''Unauthorized: invalid credentials for Profile lookup'') ''profile''"
    by code_simp
  have q: "str_includes (toLowerCase ''Unauthorized: invalid credentials for Profile lookup'') ''invalid credentials''"
    by code_simp
  show ?thesis
    using profile_suppresses_invalid_credentials [OF m p] p q by simp
qed

subsection \<open>Sign-in without a profile document\<close>

lemma profileError_marker:
  "(case message profileError of None \<Rightarrow> False | Some m \<Rightarrow> str_includes m ''PROFILE_DATA_MISSING'')"
  by (simp add: profileError_def Error_def)

text \<open>
  C2, as amended. When the credentials authenticate and no profile document is found for the
  identity, \<open>signIn\<close> fails with the PROFILE_DATA_MISSING error, which is not the
  invalid-credentials error. The session cookie, set right after authentication, is still
  set when the error is thrown, and no request to delete the session is issued.
\<close>

theorem signIn_profile_missing:
  assumes "createAdminClient a = Inr ()"
    and "createEmailPasswordSession a mail password = Inr s"
    and "listUserDocuments a (session_userId s) = Inr None \<or>
         listUserDocuments a (session_userId s) = Inr (Some [])"
  shows "snd (signIn a mail password) = Inl profileError \<and>
         profileError \<noteq> Error ''Invalid email or password. Please try again.'' \<and>
         cookieJar (fst (signIn a mail password)) ''appwrite-session'' = Some (secret s) \<and>
         (\<forall>i. DeleteSession i \<notin> set (fst (signIn a mail password)))"
proof -
  have ne: "profileError \<noteq> Error ''Invalid email or password. Please try again.''"
    by (simp add: profileError_def Error_def)
  have g: "getUserInfo a (session_userId s) =
             ([CreateAdminClient, ListUserDocuments (session_userId s),
               ConsoleLog (''No user document found for userId: '' @ session_userId s)], Inr None)"
    using assms(1,3) by (auto simp: getUserInfo_def io_defs)
  show ?thesis
    using assms(1,2) g ne profileError_marker
    by (cases "account_get a")
       (simp_all add: signIn_def signIn_catch_def io_defs cookieJar_def)
qed

theorem signIn_profile_missing_witness:
  "createAdminClient orphanStore = Inr () \<and>
   createEmailPasswordSession orphanStore ''a@x.com'' ''secret1'' =
     Inr \<lparr>session_id = ''session-1'', session_userId = ''user-1'', secret = ''token-1''\<rparr> \<and>
   listUserDocuments orphanStore ''user-1'' = Inr (Some []) \<and>
   snd (signIn orphanStore ''a@x.com'' ''secret1'') = Inl profileError \<and>
   cookieJar (fst (signIn orphanStore ''a@x.com'' ''secret1'')) ''appwrite-session'' = Some ''token-1''"
  using signIn_profile_missing
    [of orphanStore "''a@x.com''" "''secret1''"
        "\<lparr>session_id = ''session-1'', session_userId = ''user-1'', secret = ''token-1''\<rparr>"]
  by (simp add: orphanStore_def)

text \<open>
  C2, as stated, fails: in this run the principal authenticates, no profile document exists,
  and after the failure the cookie still holds the secret of the session, which nothing has
  revoked.
\<close>

theorem signIn_session_left_counterexample:
  "signIn orphanStore ''a@x.com'' ''secret1'' =
     ([CreateAdminClient, CreateEmailPasswordSession ''a@x.com'' ''secret1'',
       CookiesSet ''appwrite-session'' ''token-1'', CreateAdminClient, ListUserDocuments ''user-1'',
       ConsoleLog ''No user document found for userId: user-1'', AccountGet,
       ConsoleError ''User document missing for userId: user-1, email: a@x.com'' None,
       ConsoleError ''Sign in error details:'' (Some profileError)],
      Inl profileError) \<and>
   cookieJar (fst (signIn orphanStore ''a@x.com'' ''secret1'')) ''appwrite-session'' = Some ''token-1'' \<and>
   DeleteSession ''session-1'' \<notin> set (fst (signIn orphanStore ''a@x.com'' ''secret1'')) \<and>
   CookiesDelete ''appwrite-session'' \<notin> set (fst (signIn orphanStore ''a@x.com'' ''secret1''))"
  using profileError_marker
  by (simp add: signIn_def signIn_catch_def getUserInfo_def io_defs orphanStore_def cookieJar_def)

subsection \<open>Sign-up when customer creation fails\<close>

text \<open>\<open>createDwollaCustomer\<close> reports every failure by throwing; it never returns an empty
  URL, so the test \<^verbatim>\<open>if (!dwollaCustomerUrl)\<close> that guards the clean-up in \<open>signUp\<close> never
  succeeds.\<close>

lemma createDwollaCustomer_try_url_not_empty:
  "snd (createDwollaCustomer_try d c) \<noteq> Inr []"
  by (cases "post d ''customers'' (CustomerPayload c)")
     (simp_all add: createDwollaCustomer_try_def io_defs split: option.split)

lemma createDwollaCustomer_catch_throws:
  "\<exists>e. snd (createDwollaCustomer_catch d err) = Inl e"
  by (simp add: createDwollaCustomer_catch_def io_defs Let_def split: option.split)

lemma createDwollaCustomer_url_not_empty: "snd (createDwollaCustomer d c) \<noteq> Inr []"
proof (cases "createDwollaCustomer_try d c")
  case (Pair t r)
  show ?thesis
  proof (cases r)
    case (Inl e)
    obtain t' r' where h: "createDwollaCustomer_catch d e = (t', r')"
      by (cases "createDwollaCustomer_catch d e")
    with createDwollaCustomer_catch_throws[of d e] obtain e' where "r' = Inl e'" by auto
    with Pair Inl h show ?thesis by (simp add: createDwollaCustomer_def try_catch_def)
  next
    case (Inr v)
    with Pair createDwollaCustomer_try_url_not_empty[of d c] have "v \<noteq> []" by auto
    with Pair Inr show ?thesis by (simp add: createDwollaCustomer_def try_catch_def)
  qed
qed

lemma createDwollaCustomer_try_trace:
  "DeleteIdentity i \<notin> set (fst (createDwollaCustomer_try d c))"
  by (cases "post d ''customers'' (CustomerPayload c)")
     (simp_all add: createDwollaCustomer_try_def io_defs split: option.split)

lemma createDwollaCustomer_catch_trace:
  "DeleteIdentity i \<notin> set (fst (createDwollaCustomer_catch d err))"
  by (simp add: createDwollaCustomer_catch_def io_defs Let_def split: option.split)

lemma createDwollaCustomer_trace:
  "DeleteIdentity i \<notin> set (fst (createDwollaCustomer d c))"
proof (cases "createDwollaCustomer_try d c")
  case (Pair t r)
  have t: "DeleteIdentity i \<notin> set t"
    using createDwollaCustomer_try_trace[of i d c] Pair by simp
  show ?thesis
  proof (cases r)
    case (Inl e)
    obtain t' r' where h: "createDwollaCustomer_catch d e = (t', r')"
      by (cases "createDwollaCustomer_catch d e")
    have "DeleteIdentity i \<notin> set t'"
      using createDwollaCustomer_catch_trace[of i d e] h by simp
    with t Pair Inl h show ?thesis by (simp add: createDwollaCustomer_def try_catch_def)
  next
    case (Inr v)
    with t Pair show ?thesis by (simp add: createDwollaCustomer_def try_catch_def)
  qed
qed

text \<open>
  Whenever the principal has been created and \<open>createDwollaCustomer\<close> then throws an error
  whose message does not send \<open>signUp\<close> into its recovery path, \<open>signUp\<close> throws that error
  on and issues no request to delete the principal.
\<close>

lemma signUp_customer_failure:
  assumes "createAdminClient a = Inr ()"
    and "account_create a (email u) password (firstName u @ '' '' @ lastName u) = Inr (Some account)"
    and "snd (createDwollaCustomer d (personal u)) = Inl e"
    and "message e = Some m" and "\<not> str_includes m ''already exists''"
    and "\<not> str_includes m ''already registered''" and "code e \<noteq> Some 409"
  shows "snd (signUp a d u password) = Inl e \<and>
         (\<forall>i. DeleteIdentity i \<notin> set (fst (signUp a d u password)))"
proof -
  obtain t where c: "createDwollaCustomer d (personal u) = (t, Inl e)"
    using assms(3) by (cases "createDwollaCustomer d (personal u)") simp
  have t: "\<And>i. DeleteIdentity i \<notin> set t"
    using createDwollaCustomer_trace[of _ d "personal u"] c by simp
  have "signUp a d u password =
          ([CreateAdminClient, AccountCreate (email u) password (firstName u @ '' '' @ lastName u)] @ t @
           [ConsoleError ''Sign up error:'' (Some e)], Inl e)"
    using assms(1,2,4-7) c by (simp add: signUp_def signUp_try_def io_defs)
  with t show ?thesis by simp
qed

text \<open>
  C8 fails on the code. In this run the principal is created, the payment rail rejects the
  customer, and \<open>signUp\<close> throws the error of \<open>createDwollaCustomer\<close> on without any request
  to delete the principal.
\<close>

theorem signUp_orphaned_principal:
  "signUp freshStore stateRejectingDwolla someUser ''secret1'' =
     ([CreateAdminClient, AccountCreate ''a@x.com'' ''secret1'' ''A X'',
       ConsoleLog ''Creating Dwolla customer with data:'',
       DwollaPost ''customers'' (CustomerPayload (personal someUser)),
       ConsoleError ''Creating a Dwolla Customer Failed - Full Error:'' (Some stateRejected),
       ConsoleError ''Sign up error:''
         (Some (Error (''Dwolla customer creation failed: '' @ stateRejectionText)))],
      Inl (Error (''Dwolla customer creation failed: '' @ stateRejectionText))) \<and>
   DeleteIdentity ''user-1'' \<notin> set (fst (signUp freshStore stateRejectingDwolla someUser ''secret1''))"
proof -
  have c: "createDwollaCustomer stateRejectingDwolla (personal someUser) =
           ([ConsoleLog ''Creating Dwolla customer with data:'',
             DwollaPost ''customers'' (CustomerPayload (personal someUser)),
             ConsoleError ''Creating a Dwolla Customer Failed - Full Error:'' (Some stateRejected)],
            Inl (Error (''Dwolla customer creation failed: '' @ stateRejectionText)))"
    by (simp add: createDwollaCustomer_defs io_defs stateRejectingDwolla_def stateRejected_def
          stateRejectionBody_def truthy_def template_def validationErrors_def stateRejectionText_def)
  have m: "\<not> str_includes (''Dwolla customer creation failed: '' @ stateRejectionText) ''already exists''"
          "\<not> str_includes (''Dwolla customer creation failed: '' @ stateRejectionText) ''already registered''"
    by code_simp+
  have s: "signUp freshStore stateRejectingDwolla someUser ''secret1'' =
     ([CreateAdminClient, AccountCreate ''a@x.com'' ''secret1'' ''A X'',
       ConsoleLog ''Creating Dwolla customer with data:'',
       DwollaPost ''customers'' (CustomerPayload (personal someUser)),
       ConsoleError ''Creating a Dwolla Customer Failed - Full Error:'' (Some stateRejected),
       ConsoleError ''Sign up error:''
         (Some (Error (''Dwolla customer creation failed: '' @ stateRejectionText)))],
      Inl (Error (''Dwolla customer creation failed: '' @ stateRejectionText)))"
  proof -
    have u: "email someUser = ''a@x.com''" "firstName someUser = ''A''" "lastName someUser = ''X''"
      by (simp_all add: someUser_def)
    show ?thesis
      using m
      by (simp add: signUp_def signUp_try_def c u io_defs freshStore_def orphanStore_def Error_def)
  qed
  show ?thesis
    unfolding s by simp
qed

subsection \<open>Linking a bank is all or nothing at the persistence boundary\<close>

lemma createOnDemandAuthorization_trace:
  "CreateBankDocument b \<notin> set (fst (createOnDemandAuthorization d))"
  by (cases "post d ''on-demand-authorizations'' NoPayload")
     (simp_all add: createOnDemandAuthorization_def io_defs split: option.split)

lemma createOnDemandAuthorization_returns:
  "\<exists>t v. createOnDemandAuthorization d = (t, Inr v)"
  by (cases "post d ''on-demand-authorizations'' NoPayload")
     (simp_all add: createOnDemandAuthorization_def io_defs split: option.split)

lemma createFundingSource_trace:
  "CreateBankDocument b \<notin> set (fst (createFundingSource d options))"
  by (cases "post d (''customers/'' @ customerId options @ ''/funding-sources'')
               (FundingSourcePayload (fundingSourceName options) (plaidToken options))")
     (simp_all add: createFundingSource_def io_defs Let_def)

lemma addFundingSource_trace:
  "CreateBankDocument b \<notin> set (fst (addFundingSource d params))"
proof -
  obtain t v where a: "createOnDemandAuthorization d = (t, Inr v)"
    using createOnDemandAuthorization_returns by blast
  have t: "CreateBankDocument b \<notin> set t"
    using createOnDemandAuthorization_trace[of b d] a by simp
  let ?o = "\<lparr>customerId = fs_dwollaCustomerId params, fundingSourceName = bankName params,
              plaidToken = processorToken params, links = v\<rparr>"
  obtain t' r where f: "createFundingSource d ?o = (t', r)"
    by (cases "createFundingSource d ?o")
  have t': "CreateBankDocument b \<notin> set t'"
    using createFundingSource_trace[of b d ?o] f by simp
  show ?thesis
    using a f t t'
    by (cases r) (simp_all add: addFundingSource_def io_defs del: createFundingSourceOptions.simps)
qed

lemma addFundingSource_returns:
  "\<exists>t v. addFundingSource d params = (t, Inr v)"
proof -
  obtain t v where a: "createOnDemandAuthorization d = (t, Inr v)"
    using createOnDemandAuthorization_returns by blast
  show ?thesis
    using a
    by (cases "post d (''customers/'' @ fs_dwollaCustomerId params @ ''/funding-sources'')
               (FundingSourcePayload (bankName params) (processorToken params))")
       (simp_all add: addFundingSource_def createFundingSource_def io_defs Let_def)
qed

text \<open>The result of \<open>addFundingSource\<close> is the location that the request for the funding
  source answers with. The request for an on-demand authorization that comes first has no
  part in it: when it fails, the failure is logged and the funding source is requested all
  the same.\<close>

lemma addFundingSource_result:
  "snd (addFundingSource d params) =
     (case post d (''customers/'' @ fs_dwollaCustomerId params @ ''/funding-sources'')
             (FundingSourcePayload (bankName params) (processorToken params)) of
        Inl e \<Rightarrow> Inr None
      | Inr res \<Rightarrow> Inr (location res))"
proof -
  obtain t v where a: "createOnDemandAuthorization d = (t, Inr v)"
    using createOnDemandAuthorization_returns by blast
  show ?thesis
    using a
    by (cases "post d (''customers/'' @ fs_dwollaCustomerId params @ ''/funding-sources'')
               (FundingSourcePayload (bankName params) (processorToken params))")
       (simp_all add: addFundingSource_def createFundingSource_def io_defs Let_def)
qed

text \<open>
  C7. A step of the link attempt fails when it yields no result: the exchange of the public
  token or the creation of the processor token throws, the fetch of the accounts throws or
  returns no account, the registration of the funding source (\<open>addFundingSource\<close>) returns
  no URL. Unless each of the four steps yields its result, \<open>exchangePublicToken\<close> gives up:
  it returns undefined and its trace holds no request to create a bank document, so
  \<open>createBankAccount\<close> has not been invoked.
\<close>

theorem exchangePublicToken_all_or_nothing:
  assumes "\<not> (\<exists>r ar accountData rest token url.
                  itemPublicTokenExchange p publicToken = Inr r \<and>
                  accountsGet p (access_token r) = Inr ar \<and>
                  accounts ar = accountData # rest \<and>
                  processorTokenCreate p (access_token r) (account_id accountData) ''dwolla'' = Inr token \<and>
                  snd (addFundingSource d
                         \<lparr>fs_dwollaCustomerId = dwollaCustomerId user, processorToken = token,
                          bankName = account_name accountData\<rparr>) = Inr (Some url) \<and>
                  url \<noteq> [])"
  shows "snd (exchangePublicToken a p d publicToken user) = Inr None \<and>
         (\<forall>b. CreateBankDocument b \<notin> set (fst (exchangePublicToken a p d publicToken user)))"
proof (cases "itemPublicTokenExchange p publicToken")
  case (Inl e)
  then show ?thesis
    by (simp add: exchangePublicToken_def io_defs)
next
  case r: (Inr r)
  show ?thesis
  proof (cases "accountsGet p (access_token r)")
    case (Inl e)
    with r show ?thesis
      by (simp add: exchangePublicToken_def io_defs Let_def)
  next
    case ar: (Inr ar)
    show ?thesis
    proof (cases "accounts ar")
      case Nil
      with r ar show ?thesis
        by (simp add: exchangePublicToken_def io_defs Let_def typeError_def)
    next
      case (Cons accountData rest)
      show ?thesis
      proof (cases "processorTokenCreate p (access_token r) (account_id accountData) ''dwolla''")
        case (Inl e)
        with r ar Cons show ?thesis
          by (simp add: exchangePublicToken_def io_defs Let_def)
      next
        case tok: (Inr token)
        let ?params = "\<lparr>fs_dwollaCustomerId = dwollaCustomerId user, processorToken = token,
                         bankName = account_name accountData\<rparr>"
        obtain t v where fs: "addFundingSource d ?params = (t, Inr v)"
          using addFundingSource_returns by blast
        have "\<not> (\<exists>url. v = Some url \<and> url \<noteq> [])"
          using assms r ar Cons tok fs by auto
        then have v: "v = None \<or> v = Some []"
          by (cases v) auto
        have t: "\<And>b. CreateBankDocument b \<notin> set t"
          using addFundingSource_trace[of _ d ?params] fs by simp
        from v show ?thesis
        proof
          assume "v = None"
          with r ar Cons tok fs t show ?thesis
            by (simp add: exchangePublicToken_def io_defs Let_def)
        next
          assume "v = Some []"
          with r ar Cons tok fs t show ?thesis
            by (simp add: exchangePublicToken_def io_defs Let_def)
        qed
      qed
    qed
  qed
qed

text \<open>A run in which the payment rail accepts the funding source but names no location for
  it, so that the registration yields no URL.\<close>

theorem exchangePublicToken_all_or_nothing_witness:
  "itemPublicTokenExchange linkingPlaid ''public-1'' = Inr \<lparr>access_token = ''access-1'', item_id = ''item-1''\<rparr> \<and>
   processorTokenCreate linkingPlaid ''access-1'' ''acc-1'' ''dwolla'' = Inr ''processor-1'' \<and>
   snd (addFundingSource noLocationDwolla
          \<lparr>fs_dwollaCustomerId = ''customer-1'', processorToken = ''processor-1'',
           bankName = ''Checking''\<rparr>) = Inr None \<and>
   snd (exchangePublicToken orphanStore linkingPlaid noLocationDwolla ''public-1'' linkedUser) = Inr None \<and>
   (\<forall>b. CreateBankDocument b \<notin>
          set (fst (exchangePublicToken orphanStore linkingPlaid noLocationDwolla ''public-1'' linkedUser)))"
proof -
  have n: "snd (addFundingSource noLocationDwolla params) = Inr None" for params
    by (simp add: addFundingSource_result noLocationDwolla_def workingDwolla_def)
  have "\<not> (\<exists>r ar accountData rest token url.
                  itemPublicTokenExchange linkingPlaid ''public-1'' = Inr r \<and>
                  accountsGet linkingPlaid (access_token r) = Inr ar \<and>
                  accounts ar = accountData # rest \<and>
                  processorTokenCreate linkingPlaid (access_token r) (account_id accountData) ''dwolla'' = Inr token \<and>
                  snd (addFundingSource noLocationDwolla
                         \<lparr>fs_dwollaCustomerId = dwollaCustomerId linkedUser, processorToken = token,
                          bankName = account_name accountData\<rparr>) = Inr (Some url) \<and>
                  url \<noteq> [])"
    by (simp add: n)
  then show ?thesis
    using exchangePublicToken_all_or_nothing [of linkingPlaid "''public-1''" noLocationDwolla linkedUser orphanStore] n
    by (simp add: linkingPlaid_def)
qed

text \<open>When every step yields its result the link is persisted once, after the four steps.\<close>

lemma exchangePublicToken_persists:
  "exchangePublicToken orphanStore linkingPlaid workingDwolla ''public-1'' linkedUser =
     ([ItemPublicTokenExchange ''public-1'', AccountsGet ''access-1'',
       ProcessorTokenCreate ''access-1'' ''acc-1'' ''dwolla'',
       DwollaPost ''on-demand-authorizations'' NoPayload,
       DwollaPost ''customers/customer-1/funding-sources'' (FundingSourcePayload ''Checking'' ''processor-1''),
       CreateAdminClient,
       CreateBankDocument
         \<lparr>bank_userId = ''doc-1'', bankId = ''item-1'', accountId = ''acc-1'', accessToken = ''access-1'',
          fundingSourceUrl = ''https://api.dwolla.com/customers/customer-1/funding-sources/1'',
          shareableId = ''acc-1''\<rparr>,
       RevalidatePath ''/''],
      Inr (Some ''complete''))"
  by (simp add: exchangePublicToken_def addFundingSource_def createOnDemandAuthorization_def
        createFundingSource_def createBankAccount_def io_defs Let_def
        orphanStore_def linkingPlaid_def workingDwolla_def linkedUser_def)

text \<open>The request for an on-demand authorization is no step of its own. In this run it is
  refused; the registration of the funding source still yields its URL, so none of the four
  steps has failed, and the link is persisted.\<close>

lemma exchangePublicToken_authorization_refused:
  "post authFailingDwolla ''on-demand-authorizations'' NoPayload =
     Inl (Error ''Request failed with status 500'') \<and>
   snd (addFundingSource authFailingDwolla
          \<lparr>fs_dwollaCustomerId = ''customer-1'', processorToken = ''processor-1'',
           bankName = ''Checking''\<rparr>) =
     Inr (Some ''https://api.dwolla.com/customers/customer-1/funding-sources/1'') \<and>
   exchangePublicToken orphanStore linkingPlaid authFailingDwolla ''public-1'' linkedUser =
     ([ItemPublicTokenExchange ''public-1'', AccountsGet ''access-1'',
       ProcessorTokenCreate ''access-1'' ''acc-1'' ''dwolla'',
       DwollaPost ''on-demand-authorizations'' NoPayload,
       ConsoleError ''Creating an On Demand Authorization Failed: ''
         (Some (Error ''Request failed with status 500'')),
       DwollaPost ''customers/customer-1/funding-sources'' (FundingSourcePayload ''Checking'' ''processor-1''),
       CreateAdminClient,
       CreateBankDocument
         \<lparr>bank_userId = ''doc-1'', bankId = ''item-1'', accountId = ''acc-1'', accessToken = ''access-1'',
          fundingSourceUrl = ''https://api.dwolla.com/customers/customer-1/funding-sources/1'',
          shareableId = ''acc-1''\<rparr>,
       RevalidatePath ''/''],
      Inr (Some ''complete''))"
  by (simp add: exchangePublicToken_def addFundingSource_def createOnDemandAuthorization_def
        createFundingSource_def createBankAccount_def io_defs Let_def
        orphanStore_def linkingPlaid_def authFailingDwolla_def workingDwolla_def linkedUser_def)

subsection \<open>Runs of the transaction sync\<close>

lemma syncCalls_append: "syncCalls (t @ t') = syncCalls t @ syncCalls t'"
  by (simp add: syncCalls_def)

lemma syncLoop_stop:
  "syncLoop sync tok k t False txs cur = Some (t, Inr txs)"
  by (subst syncLoop.simps) simp

lemma syncLoop_page:
  assumes "sync k \<lparr>req_access_token = tok, req_cursor = (case cur of None \<Rightarrow> [] | Some c \<Rightarrow> c)\<rparr> = Inr page"
  shows "\<exists>t1. syncCalls t1 = [\<lparr>req_access_token = tok, req_cursor = (case cur of None \<Rightarrow> [] | Some c \<Rightarrow> c)\<rparr>] \<and>
           syncLoop sync tok k t True txs cur =
           syncLoop sync tok (Suc k) (t @ t1) (has_more page) (txs @ pageTransactions page)
             (Some (next_cursor page))"
proof (cases "added page")
  case None
  have "syncLoop sync tok k t True txs cur =
        syncLoop sync tok (Suc k)
          (t @ [TransactionsSync \<lparr>req_access_token = tok, req_cursor = (case cur of None \<Rightarrow> [] | Some c \<Rightarrow> c)\<rparr>,
                ConsoleError ''Error: response data.added is not an array'' None])
          (has_more page) (txs @ pageTransactions page) (Some (next_cursor page))"
    using assms None by (subst syncLoop.simps) (simp add: pageTransactions_def)
  then show ?thesis
    by (intro exI[of _ "[TransactionsSync \<lparr>req_access_token = tok, req_cursor = (case cur of None \<Rightarrow> [] | Some c \<Rightarrow> c)\<rparr>,
                ConsoleError ''Error: response data.added is not an array'' None]"])
       (simp add: syncCalls_def)
next
  case (Some entries)
  have "syncLoop sync tok k t True txs cur =
        syncLoop sync tok (Suc k)
          (t @ [TransactionsSync \<lparr>req_access_token = tok, req_cursor = (case cur of None \<Rightarrow> [] | Some c \<Rightarrow> c)\<rparr>])
          (has_more page) (txs @ pageTransactions page) (Some (next_cursor page))"
    using assms Some by (subst syncLoop.simps) (simp add: pageTransactions_def)
  then show ?thesis
    by (intro exI[of _ "[TransactionsSync \<lparr>req_access_token = tok, req_cursor = (case cur of None \<Rightarrow> [] | Some c \<Rightarrow> c)\<rparr>]"])
       (simp add: syncCalls_def)
qed

lemma syncLoop_pages:
  assumes "servesPages sync tok k (case cur of None \<Rightarrow> [] | Some c \<Rightarrow> c) (ps @ [q])"
    and "\<forall>p \<in> set ps. has_more p" and "\<not> has_more q"
  shows "\<exists>t'. syncLoop sync tok k t True txs cur =
                 Some (t @ t', Inr (txs @ concat (map pageTransactions (ps @ [q])))) \<and>
              syncCalls t' = runRequests tok (case cur of None \<Rightarrow> [] | Some c \<Rightarrow> c) (ps @ [q])"
  using assms
proof (induction ps arbitrary: k cur t txs)
  case Nil
  then have a: "sync k \<lparr>req_access_token = tok, req_cursor = (case cur of None \<Rightarrow> [] | Some c \<Rightarrow> c)\<rparr> = Inr q"
    by simp
  from syncLoop_page[of sync k tok cur q t txs] a obtain t1 where
    t1: "syncCalls t1 = [\<lparr>req_access_token = tok, req_cursor = (case cur of None \<Rightarrow> [] | Some c \<Rightarrow> c)\<rparr>]"
    and s: "syncLoop sync tok k t True txs cur =
           syncLoop sync tok (Suc k) (t @ t1) (has_more q) (txs @ pageTransactions q) (Some (next_cursor q))"
    by blast
  from s Nil.prems(3) have "syncLoop sync tok k t True txs cur = Some (t @ t1, Inr (txs @ pageTransactions q))"
    by (simp add: syncLoop_stop)
  with t1 show ?case by simp
next
  case (Cons p ps)
  then have a: "sync k \<lparr>req_access_token = tok, req_cursor = (case cur of None \<Rightarrow> [] | Some c \<Rightarrow> c)\<rparr> = Inr p"
    and r: "servesPages sync tok (Suc k) (case Some (next_cursor p) of None \<Rightarrow> [] | Some c \<Rightarrow> c) (ps @ [q])"
    and hm: "has_more p" "\<forall>p \<in> set ps. has_more p"
    by simp_all
  from syncLoop_page[of sync k tok cur p t txs] a obtain t1 where
    t1: "syncCalls t1 = [\<lparr>req_access_token = tok, req_cursor = (case cur of None \<Rightarrow> [] | Some c \<Rightarrow> c)\<rparr>]"
    and s: "syncLoop sync tok k t True txs cur =
           syncLoop sync tok (Suc k) (t @ t1) (has_more p) (txs @ pageTransactions p) (Some (next_cursor p))"
    by blast
  from Cons.IH[OF r hm(2) Cons.prems(3), of "t @ t1" "txs @ pageTransactions p"] obtain t2 where
    t2: "syncLoop sync tok (Suc k) (t @ t1) True (txs @ pageTransactions p) (Some (next_cursor p)) =
           Some ((t @ t1) @ t2, Inr ((txs @ pageTransactions p) @ concat (map pageTransactions (ps @ [q]))))"
    and c2: "syncCalls t2 = runRequests tok (next_cursor p) (ps @ [q])"
    by auto
  have "syncLoop sync tok k t True txs cur =
          Some (t @ (t1 @ t2), Inr (txs @ concat (map pageTransactions ((p # ps) @ [q]))))"
    using s hm(1) t2 by simp
  moreover have "syncCalls (t1 @ t2) = runRequests tok (case cur of None \<Rightarrow> [] | Some c \<Rightarrow> c) ((p # ps) @ [q])"
    using t1 c2 by (simp add: syncCalls_append)
  ultimately show ?case by blast
qed

lemma length_runRequests: "length (runRequests tok c pages) = length pages"
  by (induction pages arbitrary: c) simp_all



text \<open>
  C4, as amended. For a non-empty access token and every \<open>N\<close>: if the sync endpoint answers
  the requests of the run with \<open>N + 1\<close> pages of which the first \<open>N\<close> have \<open>has_more\<close> set
  and the last has not, then \<open>getTransactions\<close> terminates, issues exactly \<open>N + 1\<close> sync
  requests, each with the cursor of the page before (the first with the empty cursor), and
  returns the entries added by all pages, in order.
\<close>

theorem getTransactions_pages:
  assumes "tok \<noteq> []" and "length pages = Suc N"
    and "servesPages sync tok 0 [] pages"
    and "\<forall>i<N. has_more (pages ! i)" and "\<not> has_more (pages ! N)"
  shows "\<exists>t. getTransactions sync tok = Some (t, Inr (concat (map pageTransactions pages))) \<and>
             syncCalls t = runRequests tok [] pages \<and>
             length (syncCalls t) = N + 1"
proof -
  from assms(2) have ne: "pages \<noteq> []" by auto
  then have split: "pages = butlast pages @ [last pages]" by simp
  have l: "last pages = pages ! N"
    using assms(2) ne by (simp add: last_conv_nth)
  have "\<forall>p \<in> set (butlast pages). has_more p"
  proof
    fix p assume "p \<in> set (butlast pages)"
    then obtain i where "i < length (butlast pages)" "butlast pages ! i = p"
      by (auto simp: in_set_conv_nth)
    then show "has_more p" using assms(2,4) by (auto simp: nth_butlast)
  qed
  moreover have "\<not> has_more (last pages)" using l assms(5) by simp
  moreover have "servesPages sync tok 0 (case None of None \<Rightarrow> [] | Some c \<Rightarrow> c) (butlast pages @ [last pages])"
    using assms(3) split by simp
  ultimately obtain t where
    run: "syncLoop sync tok 0 [] True [] None =
            Some ([] @ t, Inr ([] @ concat (map pageTransactions (butlast pages @ [last pages]))))"
    and calls: "syncCalls t = runRequests tok (case None of None \<Rightarrow> [] | Some c \<Rightarrow> c) (butlast pages @ [last pages])"
    using syncLoop_pages[of sync tok 0 None "butlast pages" "last pages" "[]" "[]"] by blast
  from run split have "syncLoop sync tok 0 [] True [] None = Some (t, Inr (concat (map pageTransactions pages)))"
    by simp
  then have "getTransactions sync tok = Some (t, Inr (concat (map pageTransactions pages)))"
    using assms(1) by (simp add: getTransactions_def try_catch_def)
  moreover have c: "syncCalls t = runRequests tok [] pages"
    using calls split by simp
  moreover have "length (syncCalls t) = N + 1"
    using c assms(2) by (simp add: length_runRequests)
  ultimately show ?thesis by blast
qed

theorem getTransactions_pages_witness:
  "servesPages threePages ''access-1'' 0 [] threeAnswers \<and>
   getTransactions threePages ''access-1'' =
     Some ([TransactionsSync \<lparr>req_access_token = ''access-1'', req_cursor = []\<rparr>,
            TransactionsSync \<lparr>req_access_token = ''access-1'', req_cursor = ''x''\<rparr>,
            TransactionsSync \<lparr>req_access_token = ''access-1'', req_cursor = ''xx''\<rparr>],
           Inr [addedTransaction (coffee ''t''), addedTransaction (coffee ''tx''),
                addedTransaction (coffee ''txx'')])"
proof -
  have s: "servesPages threePages ''access-1'' 0 [] threeAnswers"
    by (simp add: threePages_def threeAnswers_def)
  have "\<forall>i<2. has_more (threeAnswers ! i)"
    by (simp add: threeAnswers_def less_Suc_eq numeral_2_eq_2)
  moreover have "\<not> has_more (threeAnswers ! 2)" "length threeAnswers = Suc 2"
    by (simp_all add: threeAnswers_def)
  ultimately obtain t where
    "getTransactions threePages ''access-1'' = Some (t, Inr (concat (map pageTransactions threeAnswers)))"
    "syncCalls t = runRequests ''access-1'' [] threeAnswers"
    using getTransactions_pages[of "''access-1''" threeAnswers 2 threePages] s by auto
  moreover have "getTransactions threePages ''access-1'' =
     Some ([TransactionsSync \<lparr>req_access_token = ''access-1'', req_cursor = []\<rparr>,
            TransactionsSync \<lparr>req_access_token = ''access-1'', req_cursor = ''x''\<rparr>,
            TransactionsSync \<lparr>req_access_token = ''access-1'', req_cursor = ''xx''\<rparr>],
           Inr [addedTransaction (coffee ''t''), addedTransaction (coffee ''tx''),
                addedTransaction (coffee ''txx'')])"
    by (simp add: getTransactions_def syncLoop.simps threePages_def try_catch_def)
  ultimately show ?thesis using s by simp
qed

text \<open>
  C4, as stated, fails for the empty access token: the endpoint would serve two pages with
  \<open>has_more\<close> set and a third without, yet \<open>getTransactions\<close> returns at its guard with
  no request issued and no entry returned.
\<close>

theorem getTransactions_missing_token_counterexample:
  "servesPages threePages [] 0 [] threeAnswers \<and>
   length threeAnswers = 2 + 1 \<and>
   has_more (threeAnswers ! 0) \<and> has_more (threeAnswers ! 1) \<and> \<not> has_more (threeAnswers ! 2) \<and>
   getTransactions threePages [] = Some ([ConsoleError ''Access token is missing'' None], Inr []) \<and>
   syncCalls [ConsoleError ''Access token is missing'' None] = [] \<and>
   concat (map pageTransactions threeAnswers) \<noteq> []"
  by (simp add: threePages_def threeAnswers_def getTransactions_def syncCalls_def pageTransactions_def)




subsection \<open>The merged feed is sorted by date, newest first, and the sort is stable\<close>

lemma set_insertInOrder: "set (insertInOrder cmp x ys) = insert x (set ys)"
  by (induction ys) auto

lemma sorted_insertInOrder:
  assumes "\<forall>a \<in> insert x (set ys). \<forall>b \<in> insert x (set ys). cmp a b = Some (key b - key a)"
    and "sorted_wrt (\<lambda>a b. key b \<le> key a) ys"
  shows "sorted_wrt (\<lambda>a b. key b \<le> (key a :: int)) (insertInOrder cmp x ys)"
  using assms
proof (induction ys)
  case Nil
  then show ?case by simp
next
  case (Cons y ys)
  have c: "cmp x y = Some (key y - key x)" using Cons.prems(1) by simp
  show ?case
  proof (cases "key y \<le> key x")
    case True
    then have "insertInOrder cmp x (y # ys) = x # y # ys" using c by simp
    moreover have "\<forall>z \<in> set ys. key z \<le> key x"
      using Cons.prems(2) True by auto
    ultimately show ?thesis using Cons.prems(2) True by simp
  next
    case False
    then have i: "insertInOrder cmp x (y # ys) = y # insertInOrder cmp x ys" using c by simp
    have "sorted_wrt (\<lambda>a b. key b \<le> key a) (insertInOrder cmp x ys)"
      using Cons.IH Cons.prems by simp
    moreover have "\<forall>z \<in> set (insertInOrder cmp x ys). key z \<le> key y"
      using Cons.prems(2) False by (auto simp: set_insertInOrder)
    ultimately show ?thesis using i by simp
  qed
qed

lemma filter_insertInOrder:
  assumes "\<forall>a \<in> insert x (set ys). \<forall>b \<in> insert x (set ys). cmp a b = Some (key b - key a)"
  shows "filter (\<lambda>e. key e = (d :: int)) (insertInOrder cmp x ys) =
         filter (\<lambda>e. key e = d) (x # ys)"
  using assms
proof (induction ys)
  case Nil
  then show ?case by simp
next
  case (Cons y ys)
  have c: "cmp x y = Some (key y - key x)" using Cons.prems(1) by simp
  show ?case
  proof (cases "key y \<le> key x")
    case True
    then show ?thesis using c by simp
  next
    case False
    then have i: "insertInOrder cmp x (y # ys) = y # insertInOrder cmp x ys" using c by simp
    have "filter (\<lambda>e. key e = d) (insertInOrder cmp x ys) = filter (\<lambda>e. key e = d) (x # ys)"
      using Cons.IH Cons.prems by simp
    then show ?thesis using i False by auto
  qed
qed

lemma Array_sort_Cons: "Array_sort cmp (x # xs) = insertInOrder cmp x (Array_sort cmp xs)"
  by (simp add: Array_sort_def)

lemma set_Array_sort: "set (Array_sort cmp xs) = set xs"
  by (induction xs) (simp_all add: Array_sort_Cons set_insertInOrder, simp add: Array_sort_def)

lemma Array_sort_sorted_stable:
  assumes "\<forall>a \<in> set xs. \<forall>b \<in> set xs. cmp a b = Some (key b - key a)"
  shows "sorted_wrt (\<lambda>a b. key b \<le> (key a :: int)) (Array_sort cmp xs) \<and>
         (\<forall>d. filter (\<lambda>e. key e = d) (Array_sort cmp xs) = filter (\<lambda>e. key e = d) xs)"
  using assms
proof (induction xs)
  case Nil
  then show ?case by (simp add: Array_sort_def)
next
  case (Cons x xs)
  then have IH: "sorted_wrt (\<lambda>a b. key b \<le> key a) (Array_sort cmp xs)"
    "\<And>d. filter (\<lambda>e. key e = d) (Array_sort cmp xs) = filter (\<lambda>e. key e = d) xs"
    by simp_all
  have all: "\<forall>a \<in> insert x (set (Array_sort cmp xs)). \<forall>b \<in> insert x (set (Array_sort cmp xs)).
               cmp a b = Some (key b - key a)"
    using Cons.prems by (simp add: set_Array_sort)
  have "sorted_wrt (\<lambda>a b. key b \<le> key a) (Array_sort cmp (x # xs))"
    unfolding Array_sort_Cons using all IH(1) by (rule sorted_insertInOrder)
  moreover have "filter (\<lambda>e. key e = d) (Array_sort cmp (x # xs)) = filter (\<lambda>e. key e = d) (x # xs)" for d
    unfolding Array_sort_Cons using filter_insertInOrder[OF all, of d] IH(2)[of d] by simp
  ultimately show ?case by blast
qed

text \<open>The feed built from lists whose dates are dates, with \<open>time\<close> giving their times, is
  sorted by time, newest first, and entries of the same time keep their input order.\<close>

lemma allTransactions_sorted_stable:
  fixes time :: "string \<Rightarrow> int"
  assumes "\<forall>e \<in> set (map Provider transactions @ map Transfer transfers).
             getTime (entryDate e) = Some (time (entryDate e))"
  shows "sorted_wrt (\<lambda>a b. time (entryDate b) \<le> time (entryDate a))
           (allTransactions getTime transactions transfers) \<and>
         (\<forall>d. filter (\<lambda>e. time (entryDate e) = d) (allTransactions getTime transactions transfers) =
               map Provider (filter (\<lambda>t. time (date t) = d) transactions) @
               map Transfer (filter (\<lambda>t. time (tr_date t) = d) transfers))"
proof -
  let ?xs = "map Provider transactions @ map Transfer transfers"
  let ?key = "\<lambda>e. time (entryDate e)"
  have "\<forall>a \<in> set ?xs. \<forall>b \<in> set ?xs. byDateDescending getTime a b = Some (?key b - ?key a)"
    using assms by (simp add: byDateDescending_def)
  from Array_sort_sorted_stable[OF this]
  have s: "sorted_wrt (\<lambda>a b. ?key b \<le> ?key a) (Array_sort (byDateDescending getTime) ?xs)"
    and f: "\<And>d. filter (\<lambda>e. ?key e = d) (Array_sort (byDateDescending getTime) ?xs) =
                 filter (\<lambda>e. ?key e = d) ?xs"
    by simp_all
  have "filter (\<lambda>e. ?key e = d) ?xs =
        map Provider (filter (\<lambda>t. time (date t) = d) transactions) @
        map Transfer (filter (\<lambda>t. time (tr_date t) = d) transfers)" for d
    by (simp add: filter_map comp_def entryDate_def)
  with s f show ?thesis by (simp add: allTransactions_def)
qed

text \<open>The run of \<open>getAccount\<close> in which every fetch succeeds.\<close>

lemma getAccount_returns:
  assumes "createAdminClient a = Inr ()"
    and "listBankDocuments a ''$id'' documentId = Inr (Some (bank # others))"
    and "accessToken bank \<noteq> []"
    and "accountsGet p (accessToken bank) = Inr accountsResponse"
    and "accounts accountsResponse = accountData # rest"
    and "transfersOf (bank_id bank) = Inr (Some documents)"
    and "institutionsGetById p (item_institution_id accountsResponse) = Inr inst"
    and "getTransactions sync (accessToken bank) = Some (t', Inr transactions)"
  shows "\<exists>t data. getAccount a p sync transfersOf getTime documentId =
           Some (t, Inr (Some
             \<lparr>account_data = data,
              account_transactions =
                allTransactions getTime transactions
                  (map (transferTransaction (bank_id bank)) documents)\<rparr>))"
proof -
  have b: "getBank a documentId =
             ([CreateAdminClient, ListBankDocuments ''$id'' documentId], Inr (Some bank))"
    using assms(1,2) by (simp add: getBank_def io_defs)
  have i: "getInstitution p (item_institution_id accountsResponse) =
             ([InstitutionsGetById (item_institution_id accountsResponse)], Inr (Some inst))"
    using assms(7) by (simp add: getInstitution_def io_defs)
  show ?thesis
    using assms(3-6,8)
    by (simp add: getAccount_def b i bindP_def io_defs)
qed

text \<open>
  C6, as amended. When every fetch of \<open>getAccount\<close> succeeds and the dates of the provider
  transactions and of the transfer records are dates, with \<open>time\<close> giving their times, then
  \<open>getAccount\<close> returns a feed that is sorted by time, newest first. Entries of the same
  time keep their input order: the provider transactions of that time, in their order,
  come before the transfer records of that time, in theirs.
\<close>

theorem getAccount_feed_sorted:
  fixes time :: "string \<Rightarrow> int"
  assumes "createAdminClient a = Inr ()"
    and "listBankDocuments a ''$id'' documentId = Inr (Some (bank # others))"
    and "accessToken bank \<noteq> []"
    and "accountsGet p (accessToken bank) = Inr accountsResponse"
    and "accounts accountsResponse = accountData # rest"
    and "transfersOf (bank_id bank) = Inr (Some documents)"
    and "institutionsGetById p (item_institution_id accountsResponse) = Inr inst"
    and "getTransactions sync (accessToken bank) = Some (t', Inr transactions)"
    and "\<forall>e \<in> set (map Provider transactions @
                    map Transfer (map (transferTransaction (bank_id bank)) documents)).
           getTime (entryDate e) = Some (time (entryDate e))"
  shows "\<exists>t data feed.
           getAccount a p sync transfersOf getTime documentId =
             Some (t, Inr (Some \<lparr>account_data = data, account_transactions = feed\<rparr>)) \<and>
           sorted_wrt (\<lambda>a b. time (entryDate b) \<le> time (entryDate a)) feed \<and>
           (\<forall>d. filter (\<lambda>e. time (entryDate e) = d) feed =
                 map Provider (filter (\<lambda>t. time (date t) = d) transactions) @
                 map Transfer (filter (\<lambda>t. time (tr_date t) = d)
                                 (map (transferTransaction (bank_id bank)) documents)))"
proof -
  from getAccount_returns
         [of a documentId bank others p accountsResponse accountData rest transfersOf documents
             inst sync t' transactions getTime]
       assms(1-8)
  obtain t data where
    "getAccount a p sync transfersOf getTime documentId =
       Some (t, Inr (Some
         \<lparr>account_data = data,
          account_transactions =
            allTransactions getTime transactions
              (map (transferTransaction (bank_id bank)) documents)\<rparr>))"
    by blast
  with allTransactions_sorted_stable[OF assms(9)] show ?thesis
    by blast
qed

text \<open>The feed of one bank with two purchases and three transfers.\<close>

lemma getAccount_oneBank:
  "getAccount oneBankStore linkingPlaid twoPurchases threeTransfers calendar ''bank-1'' =
     Some ([CreateAdminClient, ListBankDocuments ''$id'' ''bank-1'', ConsoleLog ''Bank Data:'',
            AccountsGet ''access-1'', ConsoleLog ''Plaid Accounts Response:'',
            GetTransactionsByBankId ''bank-1'', InstitutionsGetById ''ins-1'',
            TransactionsSync \<lparr>req_access_token = ''access-1'', req_cursor = []\<rparr>],
           Inr (Some
             \<lparr>account_data =
                \<lparr>acc_id = ''acc-1'', availableBalance = 100, currentBalance = 110,
                 institutionId = ''ins-1'', acc_name = ''Checking'',
                 officialName = Some ''Plaid Checking'', acc_mask = ''0000'',
                 acc_type = ''depository'', acc_subtype = ''checking'',
                 appwriteItemId = ''bank-1'', acc_shareableId = None\<rparr>,
              account_transactions =
                [Transfer (sent ''r3'' ''2024-03-06T10:00:00.000+00:00''),
                 Transfer (sent ''r2'' ''2024-03-05T10:00:00.000+00:00''),
                 Provider (purchase ''p1'' ''2024-03-05''),
                 Transfer (sent ''r1'' ''2024-03-05T00:00:00.000+00:00''),
                 Provider (purchase ''p2'' ''2024-03-01'')]\<rparr>))"
proof -
  have l: "syncLoop twoPurchases ''access-1'' 0 [] True ([] :: int transaction list) None =
     Some ([TransactionsSync \<lparr>req_access_token = ''access-1'', req_cursor = []\<rparr>],
           Inr [purchase ''p1'' ''2024-03-05'', purchase ''p2'' ''2024-03-01''])"
    by (simp add: syncLoop.simps twoPurchases_def addedTransaction_def coffee_def purchase_def)
  have g: "getTransactions twoPurchases ''access-1'' =
     Some ([TransactionsSync \<lparr>req_access_token = ''access-1'', req_cursor = []\<rparr>],
           Inr [purchase ''p1'' ''2024-03-05'', purchase ''p2'' ''2024-03-01''])"
    by (simp add: getTransactions_def l try_catch_def)
  have f: "allTransactions calendar [purchase ''p1'' ''2024-03-05'', purchase ''p2'' ''2024-03-01'']
             [sent ''r1'' ''2024-03-05T00:00:00.000+00:00'', sent ''r2'' ''2024-03-05T10:00:00.000+00:00'',
              sent ''r3'' ''2024-03-06T10:00:00.000+00:00''] =
           [Transfer (sent ''r3'' ''2024-03-06T10:00:00.000+00:00''),
            Transfer (sent ''r2'' ''2024-03-05T10:00:00.000+00:00''),
            Provider (purchase ''p1'' ''2024-03-05''),
            Transfer (sent ''r1'' ''2024-03-05T00:00:00.000+00:00''),
            Provider (purchase ''p2'' ''2024-03-01'')]"
    by (simp add: allTransactions_def Array_sort_def byDateDescending_def entryDate_def
          purchase_def sent_def calendar_def)
  have t: "transferTransaction ''bank-1'' (transferRecord i d) = sent i d" for i d
    by (simp add: transferTransaction_def transferRecord_def sent_def)
  have b: "getBank oneBankStore ''bank-1'' =
     ([CreateAdminClient, ListBankDocuments ''$id'' ''bank-1''],
      Inr (Some \<lparr>bank_userId = ''user-1'', bankId = ''item-1'', accountId = ''acc-1'',
                 accessToken = ''access-1'', fundingSourceUrl = ''fs-1'', shareableId = ''share-1'',
                 bank_id = ''bank-1''\<rparr>))"
    by (simp add: getBank_def io_defs oneBankStore_def orphanStore_def)
  have i: "getInstitution linkingPlaid ''ins-1'' =
     ([InstitutionsGetById ''ins-1''], Inr (Some \<lparr>institution_id = ''ins-1'', institution_name = ''Bank''\<rparr>))"
    by (simp add: getInstitution_def io_defs linkingPlaid_def)
  have p: "accountsGet linkingPlaid ''access-1'' =
     Inr \<lparr>accounts = [\<lparr>account_id = ''acc-1'', balances_available = 100, balances_current = 110,
                        account_name = ''Checking'', official_name = Some ''Plaid Checking'',
                        mask = ''0000'', account_type = ''depository'', subtype = ''checking''\<rparr>],
          item_institution_id = ''ins-1''\<rparr>"
    by (simp add: linkingPlaid_def)
  show ?thesis
    by (simp add: getAccount_def b i p g f t bindP_def io_defs threeTransfers_def)
qed

theorem getAccount_feed_sorted_witness:
  "(\<exists>t data feed.
      getAccount oneBankStore linkingPlaid twoPurchases threeTransfers calendar ''bank-1'' =
        Some (t, Inr (Some \<lparr>account_data = data, account_transactions = feed\<rparr>)) \<and>
      feed = [Transfer (sent ''r3'' ''2024-03-06T10:00:00.000+00:00''),
              Transfer (sent ''r2'' ''2024-03-05T10:00:00.000+00:00''),
              Provider (purchase ''p1'' ''2024-03-05''),
              Transfer (sent ''r1'' ''2024-03-05T00:00:00.000+00:00''),
              Provider (purchase ''p2'' ''2024-03-01'')] \<and>
      sorted_wrt (\<lambda>a b. (case calendar (entryDate b) of None \<Rightarrow> 0 | Some t \<Rightarrow> t)
                        \<le> (case calendar (entryDate a) of None \<Rightarrow> 0 | Some t \<Rightarrow> t)) feed) \<and>
   calendar ''2024-03-05'' = calendar ''2024-03-05T00:00:00.000+00:00''"
proof -
  let ?bank = "\<lparr>bank_userId = ''user-1'', bankId = ''item-1'', accountId = ''acc-1'',
                accessToken = ''access-1'', fundingSourceUrl = ''fs-1'', shareableId = ''share-1'',
                bank_id = ''bank-1''\<rparr>"
  let ?accountData = "\<lparr>account_id = ''acc-1'', balances_available = 100 :: int,
                       balances_current = 110, account_name = ''Checking'',
                       official_name = Some ''Plaid Checking'', mask = ''0000'',
                       account_type = ''depository'', subtype = ''checking''\<rparr>"
  let ?accountsResponse = "\<lparr>accounts = [?accountData], item_institution_id = ''ins-1''\<rparr>"
  let ?inst = "\<lparr>institution_id = ''ins-1'', institution_name = ''Bank''\<rparr>"
  let ?documents = "[transferRecord ''r1'' ''2024-03-05T00:00:00.000+00:00'',
                     transferRecord ''r2'' ''2024-03-05T10:00:00.000+00:00'',
                     transferRecord ''r3'' ''2024-03-06T10:00:00.000+00:00'']"
  let ?transactions = "[purchase ''p1'' ''2024-03-05'', purchase ''p2'' ''2024-03-01'']"
  let ?trace = "[TransactionsSync \<lparr>req_access_token = ''access-1'', req_cursor = []\<rparr>]"
  let ?time = "\<lambda>s. case calendar s of None \<Rightarrow> 0 | Some t \<Rightarrow> t"
  have h1: "createAdminClient oneBankStore = Inr ()"
    by (simp add: oneBankStore_def orphanStore_def)
  have h2: "listBankDocuments oneBankStore ''$id'' ''bank-1'' = Inr (Some (?bank # []))"
    by (simp add: oneBankStore_def orphanStore_def)
  have h3: "accessToken ?bank \<noteq> []"
    by simp
  have h4: "accountsGet linkingPlaid (accessToken ?bank) = Inr ?accountsResponse"
    by (simp add: linkingPlaid_def)
  have h5: "accounts ?accountsResponse = ?accountData # []"
    by simp
  have h6: "threeTransfers (bank_id ?bank) = Inr (Some ?documents)"
    by (simp add: threeTransfers_def)
  have h7: "institutionsGetById linkingPlaid (item_institution_id ?accountsResponse) = Inr ?inst"
    by (simp add: linkingPlaid_def)
  have l: "syncLoop twoPurchases ''access-1'' 0 [] True ([] :: int transaction list) None =
             Some (?trace, Inr ?transactions)"
    by (simp add: syncLoop.simps twoPurchases_def addedTransaction_def coffee_def purchase_def)
  have h8: "getTransactions twoPurchases (accessToken ?bank) = Some (?trace, Inr ?transactions)"
    by (simp add: getTransactions_def l try_catch_def)
  have h9: "\<forall>e \<in> set (map Provider ?transactions @
                map Transfer (map (transferTransaction (bank_id ?bank)) ?documents)).
      calendar (entryDate e) = Some (?time (entryDate e))"
    by (simp add: entryDate_def purchase_def transferTransaction_def transferRecord_def calendar_def)
  from getAccount_feed_sorted
         [of oneBankStore "''bank-1''" ?bank "[]" linkingPlaid ?accountsResponse ?accountData "[]"
             threeTransfers ?documents ?inst twoPurchases ?trace ?transactions calendar ?time,
          OF h1 h2 h3 h4 h5 h6 h7 h8 h9]
  obtain t data feed where
    r: "getAccount oneBankStore linkingPlaid twoPurchases threeTransfers calendar ''bank-1'' =
          Some (t, Inr (Some \<lparr>account_data = data, account_transactions = feed\<rparr>))"
    and s: "sorted_wrt (\<lambda>a b. ?time (entryDate b) \<le> ?time (entryDate a)) feed"
    by blast
  from r have f: "feed = [Transfer (sent ''r3'' ''2024-03-06T10:00:00.000+00:00''),
              Transfer (sent ''r2'' ''2024-03-05T10:00:00.000+00:00''),
              Provider (purchase ''p1'' ''2024-03-05''),
              Transfer (sent ''r1'' ''2024-03-05T00:00:00.000+00:00''),
              Provider (purchase ''p2'' ''2024-03-01'')]"
    unfolding getAccount_oneBank by simp
  have c: "calendar ''2024-03-05'' = calendar ''2024-03-05T00:00:00.000+00:00''"
    by (simp add: calendar_def)
  show ?thesis
  proof (intro conjI exI)
    show "getAccount oneBankStore linkingPlaid twoPurchases threeTransfers calendar ''bank-1'' =
            Some (t, Inr (Some \<lparr>account_data = data, account_transactions = feed\<rparr>))"
      by (rule r)
    show "feed = [Transfer (sent ''r3'' ''2024-03-06T10:00:00.000+00:00''),
              Transfer (sent ''r2'' ''2024-03-05T10:00:00.000+00:00''),
              Provider (purchase ''p1'' ''2024-03-05''),
              Transfer (sent ''r1'' ''2024-03-05T00:00:00.000+00:00''),
              Provider (purchase ''p2'' ''2024-03-01'')]"
      by (rule f)
    show "sorted_wrt (\<lambda>a b. ?time (entryDate b) \<le> ?time (entryDate a)) feed"
      by (rule s)
    show "calendar ''2024-03-05'' = calendar ''2024-03-05T00:00:00.000+00:00''"
      by (rule c)
  qed
qed

text \<open>
  C6, as stated, fails when "a given date" is a calendar date. The purchase p1 is dated
  2024-03-05 and the transfer r2 was recorded at ten o'clock on that day; in the feed of
  \<open>getAccount\<close> the transfer comes before the purchase, since the date of the purchase
  counts as midnight.
\<close>

theorem getAccount_same_day_counterexample:
  "date (purchase ''p1'' ''2024-03-05'') = ''2024-03-05'' \<and>
   take 10 (tr_date (sent ''r2'' ''2024-03-05T10:00:00.000+00:00'')) = ''2024-03-05'' \<and>
   (\<exists>t data older.
      getAccount oneBankStore linkingPlaid twoPurchases threeTransfers calendar ''bank-1'' =
        Some (t, Inr (Some
          \<lparr>account_data = data,
           account_transactions =
             Transfer (sent ''r3'' ''2024-03-06T10:00:00.000+00:00'') #
             Transfer (sent ''r2'' ''2024-03-05T10:00:00.000+00:00'') #
             Provider (purchase ''p1'' ''2024-03-05'') # older\<rparr>)))"
  by (simp add: getAccount_oneBank purchase_def sent_def)

subsection \<open>Account aggregation is all or nothing\<close>

lemma Promise_all_rejected: "Inl e \<in> set ps \<Longrightarrow> Promise_all ps = None"
  by (induction ps rule: Promise_all.induct) auto

lemma Promise_all_fulfilled: "Promise_all (map Inr vs) = Some vs"
  by (induction vs) simp_all

lemma getAccounts_bank_fetch_fails:
  "accountsGet p (accessToken bank) = Inl e \<Longrightarrow> snd (getAccounts_bank p bank) = Inl e"
  by (simp add: getAccounts_bank_def io_defs)

text \<open>
  C1, as amended. Let the bank links of the user be listed. If the live fetch of the account
  fails for one of the banks, \<open>getAccounts\<close> returns no result. If the fetch succeeds for every
  bank, it returns the metadata of all banks in the order of the links, \<open>totalBanks\<close> is the
  number of links, and \<open>totalCurrentBalance\<close> is the balances added up from the left.
\<close>

theorem getAccounts_all_or_nothing:
  assumes "snd (getBanks a uid) = Inr (Some banks)"
  shows "((\<exists>bank \<in> set banks. \<exists>e. accountsGet p (accessToken bank) = Inl e) \<longrightarrow>
            getAccounts a p uid = None) \<and>
         ((\<exists>bank \<in> set banks. \<exists>e. snd (getAccounts_bank p bank) = Inl e) \<longrightarrow>
            getAccounts a p uid = None) \<and>
         ((\<forall>bank \<in> set banks. snd (getAccounts_bank p bank) = Inr (f bank)) \<longrightarrow>
            getAccounts a p uid =
              Some \<lparr>accounts_data = map f banks,
                    totalBanks = length banks,
                    totalCurrentBalance =
                      foldl (\<lambda>total account. total + currentBalance account) 0 (map f banks)\<rparr>)"
proof -
  have rejected: "getAccounts a p uid = None"
    if "bank \<in> set banks" and "snd (getAccounts_bank p bank) = Inl e" for bank e
  proof -
    from that have "Inl e \<in> set (map (\<lambda>bank. snd (getAccounts_bank p bank)) banks)"
      by (metis image_eqI list.set_map)
    then have "Promise_all (map (\<lambda>bank. snd (getAccounts_bank p bank)) banks) = None"
      by (rule Promise_all_rejected)
    then show ?thesis
      using assms by (simp add: getAccounts_def)
  qed
  have fulfilled: "getAccounts a p uid =
              Some \<lparr>accounts_data = map f banks,
                    totalBanks = length banks,
                    totalCurrentBalance =
                      foldl (\<lambda>total account. total + currentBalance account) 0 (map f banks)\<rparr>"
    if "\<forall>bank \<in> set banks. snd (getAccounts_bank p bank) = Inr (f bank)"
  proof -
    from that have "map (\<lambda>bank. snd (getAccounts_bank p bank)) banks = map Inr (map f banks)"
      by simp
    then have "Promise_all (map (\<lambda>bank. snd (getAccounts_bank p bank)) banks) = Some (map f banks)"
      by (simp only: Promise_all_fulfilled)
    then show ?thesis
      using assms by (simp add: getAccounts_def)
  qed
  show ?thesis
    using rejected fulfilled getAccounts_bank_fetch_fails by blast
qed

lemma threeBanks:
  "snd (getBanks threeBankStore ''user-1'') =
     Inr (Some [\<lparr>bank_userId = ''user-1'', bankId = ''item-1'', accountId = ''acc-1'', accessToken = ''access-1'',
                  fundingSourceUrl = ''fs-1'', shareableId = ''share-1'', bank_id = ''bank-1''\<rparr>,
                \<lparr>bank_userId = ''user-1'', bankId = ''item-2'', accountId = ''acc-2'', accessToken = ''access-2'',
                  fundingSourceUrl = ''fs-2'', shareableId = ''share-2'', bank_id = ''bank-2''\<rparr>,
                \<lparr>bank_userId = ''user-1'', bankId = ''item-3'', accountId = ''acc-3'', accessToken = ''access-3'',
                  fundingSourceUrl = ''fs-3'', shareableId = ''share-3'', bank_id = ''bank-3''\<rparr>])"
  by (simp add: getBanks_def io_defs threeBankStore_def orphanStore_def)

theorem getAccounts_all_or_nothing_witness:
  "accountsGet flakyPlaid ''access-2'' = Inl (Error ''Request failed with status code 500'') \<and>
   getAccounts threeBankStore flakyPlaid ''user-1'' = None \<and>
   getAccounts threeBankStore steadyPlaid ''user-1'' =
     Some \<lparr>accounts_data = [aggregated ''acc-1'' ''bank-1'' ''share-1'' 100,
                            aggregated ''acc-2'' ''bank-2'' ''share-2'' 200,
                            aggregated ''acc-3'' ''bank-3'' ''share-3'' 300],
           totalBanks = 3, totalCurrentBalance = 600\<rparr>"
proof -
  let ?f = "\<lambda>bank. aggregated (accountId bank) (bank_id bank) (shareableId bank)
              (if accessToken bank = ''access-1'' then 100
               else if accessToken bank = ''access-2'' then 200 else 300)"
  have fails: "accountsGet flakyPlaid ''access-2'' = Inl (Error ''Request failed with status code 500'')"
    by (simp add: flakyPlaid_def)
  have none: "getAccounts threeBankStore flakyPlaid ''user-1'' = None"
    using fails getAccounts_all_or_nothing[OF threeBanks, of flakyPlaid] by simp
  have "snd (getAccounts_bank steadyPlaid bank) = Inr (?f bank)"
    if "accessToken bank = ''access-1'' \<and> accountId bank = ''acc-1'' \<or>
        accessToken bank = ''access-2'' \<and> accountId bank = ''acc-2'' \<or>
        accessToken bank = ''access-3'' \<and> accountId bank = ''acc-3''" for bank :: bank
    using that
    by (auto simp: getAccounts_bank_def getInstitution_def io_defs steadyPlaid_def linkingPlaid_def
          liveAccount_def aggregated_def)
  then have all: "getAccounts threeBankStore steadyPlaid ''user-1'' =
     Some \<lparr>accounts_data = [aggregated ''acc-1'' ''bank-1'' ''share-1'' 100,
                            aggregated ''acc-2'' ''bank-2'' ''share-2'' 200,
                            aggregated ''acc-3'' ''bank-3'' ''share-3'' 300],
           totalBanks = 3, totalCurrentBalance = 600\<rparr>"
    using getAccounts_all_or_nothing[OF threeBanks, of steadyPlaid ?f]
    by (simp add: aggregated_def)
  show ?thesis using fails none all by simp
qed

text \<open>
  C1, as stated, fails: with three linked banks of which the second cannot be fetched,
  \<open>getAccounts\<close> returns no result, not the two other banks with a count of 3 and their sum.
  When all three fetches succeed the result holds the three banks.
\<close>

theorem getAccounts_partial_failure_counterexample:
  "getAccounts threeBankStore flakyPlaid ''user-1'' = None \<and>
   getAccounts threeBankStore flakyPlaid ''user-1'' \<noteq>
     Some \<lparr>accounts_data = [aggregated ''acc-1'' ''bank-1'' ''share-1'' 100,
                            aggregated ''acc-3'' ''bank-3'' ''share-3'' 300],
           totalBanks = 3, totalCurrentBalance = 100 + 300\<rparr> \<and>
   getAccounts threeBankStore steadyPlaid ''user-1'' =
     Some \<lparr>accounts_data = [aggregated ''acc-1'' ''bank-1'' ''share-1'' 100,
                            aggregated ''acc-2'' ''bank-2'' ''share-2'' 200,
                            aggregated ''acc-3'' ''bank-3'' ''share-3'' 300],
           totalBanks = 3, totalCurrentBalance = 600\<rparr>"
  by (simp add: getAccounts_def threeBanks getAccounts_bank_def getInstitution_def io_defs
        flakyPlaid_def steadyPlaid_def linkingPlaid_def liveAccount_def aggregated_def)

end
